theory Spec2Isabelle
  imports Main "HOL-Library.Word"
begin

unbundle bit_operations_syntax

section \<open>The I/O module of the Wren command-line runner (src/module/io.c)\<close>

text \<open>
  The module sits between three collaborators that are not part of it: libuv (the
  reactor), the Wren VM (numbered value slots, handles, foreign objects) and the
  scheduler (resumption of suspended fibers). Every call the module makes to one of them
  is recorded, in program order, as an event of a trace; calls whose effect the module
  reads back later (slot writes, foreign storage) also update an explicit state.
\<close>

subsection \<open>Machine types\<close>

type_synonym byte = "8 word"
type_synonym c_int = "32 word"
type_synonym ssize_t = "64 word"
type_synonym size_t = "64 word"

text \<open>\<^verbatim>\<open>UV_EOF\<close> of uv.h (\<^verbatim>\<open>-4095\<close>), as a value of type \<^verbatim>\<open>ssize_t\<close>.\<close>

definition UV_EOF :: ssize_t where
  "UV_EOF = - 4095"

subsection \<open>Values of the VM\<close>

text \<open>
  A Wren number is a double. The module only moves integral quantities through numbers
  (descriptors, sizes, flags, offsets), so a number is represented by the integer it
  holds; the conversions between the machine integers and doubles are written out below.
  A \<^verbatim>\<open>WrenValue*\<close> handle is identified with the value it keeps alive; the null handle
  is \<open>None\<close>.
\<close>

datatype wvalue =
    WNull
  | WBool bool
  | WNum int
  | WString string
  | WBytes "byte list"
  | WList "wvalue list"
  | WFiber nat
  | WClass string string
  | WMethod string
  | WForeign nat

type_synonym WrenValue = wvalue

text \<open>
  \<^verbatim>\<open>(double)x\<close> for a 64-bit integer \<open>x\<close>: exact below \<open>2 ^ 53\<close>; above, the value is
  rounded to 53 significant bits, ties to even (\<open>e\<close> is the number of bits that do not
  fit, at most 11 for a 64-bit integer).
\<close>

definition double_of_int :: "int \<Rightarrow> int" where
  "double_of_int x =
     (let a = \<bar>x\<bar>;
          e = length (filter (\<lambda>k. 2 ^ (53 + k) \<le> a) [0..<12]);
          u = 2 ^ e;
          q = a div u;
          r = a mod u;
          q' = (if u < 2 * r \<or> (2 * r = u \<and> odd q) then q + 1 else q)
      in sgn x * (q' * u))"

text \<open>
  \<^verbatim>\<open>(int)d\<close> and \<^verbatim>\<open>(size_t)d\<close> for a double \<open>d\<close> that holds an integer: the value
  itself when the target type can represent it. Otherwise C leaves the conversion
  undefined (x86-64 answers \<^verbatim>\<open>INT_MIN\<close> for \<^verbatim>\<open>int\<close>); here there is no answer, and
  the entry point that needs one stops with a fault.
\<close>

definition int_of_double :: "int \<Rightarrow> c_int option" where
  "int_of_double d = (if - (2 ^ 31) \<le> d \<and> d < 2 ^ 31 then Some (word_of_int d) else None)"

definition size_t_of_double :: "int \<Rightarrow> size_t option" where
  "size_t_of_double d = (if 0 \<le> d \<and> d < 2 ^ 64 then Some (word_of_int d) else None)"

record uv_stat_t =
  st_dev :: "64 word"
  st_mode :: "64 word"
  st_nlink :: "64 word"
  st_uid :: "64 word"
  st_gid :: "64 word"
  st_rdev :: "64 word"
  st_ino :: "64 word"
  st_size :: "64 word"
  st_blksize :: "64 word"
  st_blocks :: "64 word"

text \<open>The storage of a foreign object: a descriptor (File), a stat snapshot (Stat), or
  storage that was allocated and not written yet.\<close>

datatype foreign = FileData c_int | StatData uv_stat_t | RawData

subsection \<open>Requests\<close>

text \<open>
  \<^verbatim>\<open>uv_buf_t\<close>: \<open>base\<close> is the content of the allocation \<^verbatim>\<open>base\<close> points to.
  \<^verbatim>\<open>createRequest\<close> leaves the buffer of a fresh \<^verbatim>\<open>FileRequestData\<close> unset.
\<close>

datatype uv_buf_t = NoBuffer | Buffer (base: "byte list") (len: size_t)

record FileRequestData =
  fiber :: WrenValue
  buffer :: uv_buf_t

record uv_dirent_t =
  name :: string

text \<open>What \<^verbatim>\<open>request->ptr\<close> holds after completion: nothing, the resolved path
  (realpath), or the scanned directory entries that the cursor has not handed out yet
  (scandir).\<close>

datatype req_ptr = NoPtr | PathPtr string | Dirents "uv_dirent_t list"

record uv_fs_t =
  data :: FileRequestData
  result :: ssize_t
  statbuf :: uv_stat_t
  ptr :: req_ptr

datatype callback =
    DirectoryListCallback
  | FileDeleteCallback
  | FileOpenCallback
  | FileSizeCallback
  | FileCloseCallback
  | FileReadBytesCallback
  | RealPathCallback
  | StatCallback
  | FileWriteBytesCallback

text \<open>The operations handed to libuv, with the arguments the module passes: a path, a
  descriptor, native open flags and mode, an offset.\<close>

datatype fs_op =
    Scandir string c_int
  | Unlink string
  | Open string c_int c_int
  | Stat string
  | Fstat c_int
  | Close c_int
  | Read c_int size_t
  | Write c_int size_t
  | Realpath string

datatype uv_stream_t = TtyStream | PipeStream

subsection \<open>Events and the state\<close>

datatype mem = RequestMem | RequestDataMem | BufferMem | StreamMem

text \<open>The message \<^verbatim>\<open>uv_strerror\<close> returns for a status code is kept symbolic.\<close>

datatype message = UvStrerror c_int

datatype event =
    Malloc mem
  | Free mem
  | UvFsReqCleanup
  | UvFs fs_op FileRequestData callback
  | UvFsSync fs_op
  | SchedulerResume WrenValue bool
  | SchedulerFinishResume wvalue
  | SchedulerResumeError WrenValue message
  | WrenEnsureSlots nat
  | WrenSetSlot nat wvalue
  | WrenInsertInList nat int nat
  | WrenGetVariable string string nat
  | WrenMakeCallHandle string
  | WrenReleaseValue WrenValue
  | WrenCall WrenValue wvalue wvalue
  | StoreForeign nat foreign
  | UvTtyInit | UvPipeInit | UvPipeOpen
  | UvReadStart uv_stream_t
  | UvReadStop uv_stream_t
  | UvClose uv_stream_t

record world =
  slots :: "nat \<Rightarrow> wvalue"
  objects :: "nat \<rightharpoonup> foreign"
  next_object :: nat
  statClass :: "WrenValue option"
  stdinClass :: "WrenValue option"
  stdinOnData :: "WrenValue option"
  stdinStream :: "uv_stream_t option"
  trace :: "event list"

text \<open>The state at program start: the four globals are \<^verbatim>\<open>NULL\<close>.\<close>

definition world0 :: world where
  "world0 = \<lparr> slots = (\<lambda>_. WNull), objects = Map.empty, next_object = 0,
      statClass = None, stdinClass = None, stdinOnData = None, stdinStream = None,
      trace = [] \<rparr>"

datatype fault =
    NullDereference | UnsetBuffer | OutOfBounds | BadSlot | CastOutOfRange | ReactorIdle

definition emit :: "event \<Rightarrow> world \<Rightarrow> world" where
  "emit e w = w\<lparr> trace := trace w @ [e] \<rparr>"

text \<open>The events a piece of code added: those of \<open>w'\<close> after the ones of \<open>w\<close>.\<close>

definition new_events :: "world \<Rightarrow> world \<Rightarrow> event list" where
  "new_events w w' = drop (length (trace w)) (trace w')"

subsection \<open>The slot interface of the VM\<close>

text \<open>
  Modelled from the spec: the value slot boundary of section 6 (wren.h and the VM are not
  among the sources). A setter stores a typed value in a numbered slot; a getter reads
  one, and has no answer when the slot holds a value of another type;
  \<^verbatim>\<open>wrenInsertInList\<close> with index \<^verbatim>\<open>-1\<close> appends; \<^verbatim>\<open>wrenSetSlotNewForeign\<close> allocates
  storage for a new foreign object and leaves a reference to it in the slot.
\<close>

definition wrenSetSlot :: "nat \<Rightarrow> wvalue \<Rightarrow> world \<Rightarrow> world" where
  "wrenSetSlot n v w = emit (WrenSetSlot n v) (w\<lparr> slots := (slots w)(n := v) \<rparr>)"

definition wrenEnsureSlots :: "nat \<Rightarrow> world \<Rightarrow> world" where
  "wrenEnsureSlots n w = emit (WrenEnsureSlots n) w"

definition wrenSetSlotBool :: "nat \<Rightarrow> bool \<Rightarrow> world \<Rightarrow> world" where
  "wrenSetSlotBool n b w = wrenSetSlot n (WBool b) w"

definition wrenSetSlotDouble :: "nat \<Rightarrow> int \<Rightarrow> world \<Rightarrow> world" where
  "wrenSetSlotDouble n d w = wrenSetSlot n (WNum d) w"

definition wrenSetSlotString :: "nat \<Rightarrow> string \<Rightarrow> world \<Rightarrow> world" where
  "wrenSetSlotString n s w = wrenSetSlot n (WString s) w"

text \<open>\<^verbatim>\<open>wrenSetSlotBytes\<close> copies \<open>count\<close> bytes out of the memory it is given; asking for
  more than the allocation holds reads out of bounds.\<close>

definition wrenSetSlotBytes :: "nat \<Rightarrow> byte list \<Rightarrow> size_t \<Rightarrow> world \<Rightarrow> fault + world" where
  "wrenSetSlotBytes n bytes count w =
     (if unat count \<le> length bytes then Inr (wrenSetSlot n (WBytes (take (unat count) bytes)) w)
      else Inl OutOfBounds)"

definition wrenSetSlotNull :: "nat \<Rightarrow> world \<Rightarrow> world" where
  "wrenSetSlotNull n w = wrenSetSlot n WNull w"

definition wrenSetSlotValue :: "nat \<Rightarrow> WrenValue \<Rightarrow> world \<Rightarrow> world" where
  "wrenSetSlotValue n v w = wrenSetSlot n v w"

definition wrenSetSlotNewList :: "nat \<Rightarrow> world \<Rightarrow> world" where
  "wrenSetSlotNewList n w = wrenSetSlot n (WList []) w"

definition insert_at :: "int \<Rightarrow> 'a \<Rightarrow> 'a list \<Rightarrow> 'a list" where
  "insert_at i x xs =
     (let k = (if i < 0 then nat (int (length xs) + 1 + i) else nat i)
      in take k xs @ [x] @ drop k xs)"

definition wrenInsertInList :: "nat \<Rightarrow> int \<Rightarrow> nat \<Rightarrow> world \<Rightarrow> world" where
  "wrenInsertInList listSlot index elementSlot w =
     emit (WrenInsertInList listSlot index elementSlot)
       (case slots w listSlot of
          WList xs \<Rightarrow>
            w\<lparr> slots := (slots w)(listSlot := WList (insert_at index (slots w elementSlot) xs)) \<rparr>
        | _ \<Rightarrow> w)"

definition wrenGetVariable :: "string \<Rightarrow> string \<Rightarrow> nat \<Rightarrow> world \<Rightarrow> world" where
  "wrenGetVariable module_name var_name n w =
     emit (WrenGetVariable module_name var_name n)
       (w\<lparr> slots := (slots w)(n := WClass module_name var_name) \<rparr>)"

definition wrenGetSlotValue :: "world \<Rightarrow> nat \<Rightarrow> WrenValue" where
  "wrenGetSlotValue w n = slots w n"

definition wrenGetSlotString :: "world \<Rightarrow> nat \<Rightarrow> string option" where
  "wrenGetSlotString w n = (case slots w n of WString s \<Rightarrow> Some s | _ \<Rightarrow> None)"

definition wrenGetSlotDouble :: "world \<Rightarrow> nat \<Rightarrow> int option" where
  "wrenGetSlotDouble w n = (case slots w n of WNum d \<Rightarrow> Some d | _ \<Rightarrow> None)"

definition wrenGetSlotBytes :: "world \<Rightarrow> nat \<Rightarrow> byte list option" where
  "wrenGetSlotBytes w n =
     (case slots w n of WBytes bs \<Rightarrow> Some bs | WString s \<Rightarrow> Some (map (\<lambda>c. of_char c) s)
      | _ \<Rightarrow> None)"

definition wrenGetSlotForeign :: "world \<Rightarrow> nat \<Rightarrow> nat option" where
  "wrenGetSlotForeign w n = (case slots w n of WForeign a \<Rightarrow> Some a | _ \<Rightarrow> None)"

definition wrenSetSlotNewForeign :: "nat \<Rightarrow> nat \<Rightarrow> world \<Rightarrow> nat \<times> world" where
  "wrenSetSlotNewForeign n classSlot w =
     (let a = next_object w
      in (a, wrenSetSlot n (WForeign a)
               (w\<lparr> objects := (objects w)(a \<mapsto> RawData), next_object := Suc a \<rparr>)))"

text \<open>A store through the pointer \<^verbatim>\<open>wrenGetSlotForeign\<close> or \<^verbatim>\<open>wrenSetSlotNewForeign\<close>
  returned. It is no call into the VM; it is recorded so that its place in the order of a
  function's effects can be read off the trace.\<close>

definition store_foreign :: "nat \<Rightarrow> foreign \<Rightarrow> world \<Rightarrow> world" where
  "store_foreign p v w = emit (StoreForeign p v) (w\<lparr> objects := (objects w)(p \<mapsto> v) \<rparr>)"

definition wrenMakeCallHandle :: "string \<Rightarrow> world \<Rightarrow> WrenValue \<times> world" where
  "wrenMakeCallHandle signature w = (WMethod signature, emit (WrenMakeCallHandle signature) w)"

definition wrenReleaseValue :: "WrenValue \<Rightarrow> world \<Rightarrow> world" where
  "wrenReleaseValue v w = emit (WrenReleaseValue v) w"

text \<open>\<^verbatim>\<open>wrenCall\<close> invokes the method on the receiver in slot 0 with the argument in
  slot 1; the event keeps both. What the called method does in turn is not represented.\<close>

definition wrenCall :: "WrenValue \<Rightarrow> world \<Rightarrow> world" where
  "wrenCall method w = emit (WrenCall method (slots w 0) (slots w 1)) w"

subsection \<open>The scheduler interface\<close>

text \<open>
  Modelled from the spec: the task scheduler boundary of section 6 (scheduler.h and
  scheduler.c are not among the sources). \<^verbatim>\<open>schedulerResume(fiber, hasArgument)\<close> and
  \<^verbatim>\<open>schedulerResumeError(fiber, message)\<close> trigger the resumption of a fiber;
  \<^verbatim>\<open>schedulerFinishResume()\<close> is the second phase, which hands the value in the result
  slot (slot 2) to the resumed fiber: the event keeps the value handed over.
\<close>

definition schedulerResume :: "WrenValue \<Rightarrow> bool \<Rightarrow> world \<Rightarrow> world" where
  "schedulerResume f hasArgument w = emit (SchedulerResume f hasArgument) w"

definition schedulerFinishResume :: "world \<Rightarrow> world" where
  "schedulerFinishResume w = emit (SchedulerFinishResume (slots w 2)) w"

definition schedulerResumeError :: "WrenValue \<Rightarrow> message \<Rightarrow> world \<Rightarrow> world" where
  "schedulerResumeError f msg w = emit (SchedulerResumeError f msg) w"

definition uv_strerror :: "c_int \<Rightarrow> message" where
  "uv_strerror err = UvStrerror err"

subsection \<open>Request records\<close>

text \<open>\<^verbatim>\<open>handleRequestError\<close>: the status is tested as a signed \<^verbatim>\<open>ssize_t\<close>; the cast
  \<^verbatim>\<open>(int)request->result\<close> keeps the low 32 bits.\<close>

definition handleRequestError :: "uv_fs_t \<Rightarrow> world \<Rightarrow> bool \<times> world" where
  "handleRequestError request w =
     (if 0 \<le> sint (result request) then (False, w)
      else
        let d = data request;
            f = fiber d;
            w1 = schedulerResumeError f (uv_strerror (ucast (result request))) w;
            w2 = emit (Free RequestDataMem) w1;
            w3 = emit UvFsReqCleanup w2;
            w4 = emit (Free RequestMem) w3
        in (True, w4))"

text \<open>\<^verbatim>\<open>createRequest\<close> allocates the \<^verbatim>\<open>uv_fs_t\<close> and its \<^verbatim>\<open>FileRequestData\<close>. Until
  libuv completes the request only the data is meaningful, so a request that has not
  completed is represented by its \<^verbatim>\<open>FileRequestData\<close>; the entry points fill in the
  buffer there, as the source does through \<^verbatim>\<open>request->data\<close>.\<close>

definition createRequest :: "WrenValue \<Rightarrow> world \<Rightarrow> FileRequestData \<times> world" where
  "createRequest f w =
     (let w1 = emit (Malloc RequestMem) w;
          w2 = emit (Malloc RequestDataMem) w1
      in (\<lparr> fiber = f, buffer = NoBuffer \<rparr>, w2))"

definition freeRequest :: "uv_fs_t \<Rightarrow> world \<Rightarrow> WrenValue \<times> world" where
  "freeRequest request w =
     (let d = data request;
          f = fiber d;
          w1 = emit (Free RequestDataMem) w;
          w2 = emit UvFsReqCleanup w1;
          w3 = emit (Free RequestMem) w2
      in (f, w3))"

subsection \<open>Directory listing\<close>

text \<open>
  \<^verbatim>\<open>uv_fs_scandir_next\<close> is libuv's cursor over the scanned entries: it hands out the
  next entry and advances, or answers \<^verbatim>\<open>UV_EOF\<close> (here \<open>None\<close>) once none is left.
\<close>

definition uv_fs_scandir_next :: "uv_fs_t \<Rightarrow> uv_dirent_t option \<times> uv_fs_t" where
  "uv_fs_scandir_next request =
     (case ptr request of
        Dirents (e # es) \<Rightarrow> (Some e, request\<lparr> ptr := Dirents es \<rparr>)
      | _ \<Rightarrow> (None, request))"

definition remaining :: "uv_fs_t \<Rightarrow> nat" where
  "remaining request = (case ptr request of Dirents es \<Rightarrow> length es | _ \<Rightarrow> 0)"

lemma uv_fs_scandir_next_remaining:
  "uv_fs_scandir_next request = (Some e, request') \<Longrightarrow> remaining request' < remaining request"
  by (auto simp: uv_fs_scandir_next_def remaining_def split: req_ptr.splits list.splits)

text \<open>The \<^verbatim>\<open>while\<close> loop of \<^verbatim>\<open>directoryListCallback\<close>.\<close>

function directoryListCallback_loop :: "uv_fs_t \<Rightarrow> world \<Rightarrow> uv_fs_t \<times> world" where
  "directoryListCallback_loop request w =
     (case uv_fs_scandir_next request of
        (None, request') \<Rightarrow> (request', w)
      | (Some entry, request') \<Rightarrow>
          directoryListCallback_loop request'
            (wrenInsertInList 2 (- 1) 1 (wrenSetSlotString 1 (name entry) w)))"
  by pat_completeness auto
termination
  by (relation "measure (\<lambda>(request, w). remaining request)")
     (auto dest: uv_fs_scandir_next_remaining [OF sym])

definition directoryListCallback :: "uv_fs_t \<Rightarrow> world \<Rightarrow> world" where
  "directoryListCallback request w =
     (let (handled, w0) = handleRequestError request w
      in if handled then w0
         else
           let w1 = wrenEnsureSlots 3 w0;
               w2 = wrenSetSlotNewList 2 w1;
               (request', w3) = directoryListCallback_loop request w2;
               (f, w4) = freeRequest request' w3;
               w5 = schedulerResume f True w4
           in schedulerFinishResume w5)"

subsection \<open>Completion callbacks of the file operations\<close>

definition fileDeleteCallback :: "uv_fs_t \<Rightarrow> world \<Rightarrow> world" where
  "fileDeleteCallback request w =
     (let (handled, w0) = handleRequestError request w
      in if handled then w0
         else
           let (f, w1) = freeRequest request w0
           in schedulerResume f False w1)"

definition fileOpenCallback :: "uv_fs_t \<Rightarrow> world \<Rightarrow> world" where
  "fileOpenCallback request w =
     (let (handled, w0) = handleRequestError request w
      in if handled then w0
         else
           let fd = double_of_int (sint (result request));
               (f, w1) = freeRequest request w0;
               w2 = schedulerResume f True w1;
               w3 = wrenSetSlotDouble 2 fd w2
           in schedulerFinishResume w3)"

definition fileSizeCallback :: "uv_fs_t \<Rightarrow> world \<Rightarrow> world" where
  "fileSizeCallback request w =
     (let (handled, w0) = handleRequestError request w
      in if handled then w0
         else
           let size = double_of_int (uint (st_size (statbuf request)));
               (f, w1) = freeRequest request w0;
               w2 = schedulerResume f True w1;
               w3 = wrenSetSlotDouble 2 size w2
           in schedulerFinishResume w3)"

definition fileCloseCallback :: "uv_fs_t \<Rightarrow> world \<Rightarrow> world" where
  "fileCloseCallback request w =
     (let (handled, w0) = handleRequestError request w
      in if handled then w0
         else
           let (f, w1) = freeRequest request w0
           in schedulerResume f False w1)"

definition fileReadBytesCallback :: "uv_fs_t \<Rightarrow> world \<Rightarrow> fault + world" where
  "fileReadBytesCallback request w =
     (let (handled, w0) = handleRequestError request w
      in if handled then Inr w0
         else
           case buffer (data request) of
             NoBuffer \<Rightarrow> Inl UnsetBuffer
           | Buffer buffer_base buffer_len \<Rightarrow>
               let count = result request;
                   (f, w1) = freeRequest request w0;
                   w2 = schedulerResume f True w1
               in (case wrenSetSlotBytes 2 buffer_base count w2 of
                     Inl e \<Rightarrow> Inl e
                   | Inr w3 \<Rightarrow>
                       let w4 = schedulerFinishResume w3
                       in Inr (emit (Free BufferMem) w4)))"

text \<open>\<^verbatim>\<open>request->ptr\<close> of a completed realpath is the resolved path.\<close>

definition realPathCallback :: "uv_fs_t \<Rightarrow> world \<Rightarrow> fault + world" where
  "realPathCallback request w =
     (let (handled, w0) = handleRequestError request w
      in if handled then Inr w0
         else
           let w1 = wrenEnsureSlots 3 w0
           in case ptr request of
                PathPtr path \<Rightarrow>
                  let w2 = wrenSetSlotString 2 path w1;
                      (f, w3) = freeRequest request w2;
                      w4 = schedulerResume f True w3
                  in Inr (schedulerFinishResume w4)
              | _ \<Rightarrow> Inl NullDereference)"

definition statCallback :: "uv_fs_t \<Rightarrow> world \<Rightarrow> fault + world" where
  "statCallback request w =
     (let (handled, w0) = handleRequestError request w
      in if handled then Inr w0
         else
           let w1 = wrenEnsureSlots 3 w0;
               w2 = (if statClass w1 = None
                     then let w' = wrenGetVariable ''io'' ''Stat'' 0 w1
                          in w'\<lparr> statClass := Some (wrenGetSlotValue w' 0) \<rparr>
                     else w1)
           in case statClass w2 of
                None \<Rightarrow> Inl NullDereference
              | Some cls \<Rightarrow>
                  let w3 = wrenSetSlotValue 2 cls w2;
                      (a, w4) = wrenSetSlotNewForeign 2 2 w3
                  in (case wrenGetSlotForeign w4 2 of
                        None \<Rightarrow> Inl BadSlot
                      | Some p \<Rightarrow>
                          let w5 = store_foreign p (StatData (statbuf request)) w4;
                              (f, w6) = freeRequest request w5;
                              w7 = schedulerResume f True w6
                          in Inr (schedulerFinishResume w7)))"

definition fileWriteBytesCallback :: "uv_fs_t \<Rightarrow> world \<Rightarrow> fault + world" where
  "fileWriteBytesCallback request w =
     (let (handled, w0) = handleRequestError request w
      in if handled then Inr w0
         else
           case buffer (data request) of
             NoBuffer \<Rightarrow> Inl UnsetBuffer
           | Buffer buffer_base buffer_len \<Rightarrow>
               let w1 = emit (Free BufferMem) w0;
                   (f, w2) = freeRequest request w1
               in Inr (schedulerResume f False w2))"

text \<open>The reactor completes a request by invoking the callback it was issued with.\<close>

fun complete :: "callback \<Rightarrow> uv_fs_t \<Rightarrow> world \<Rightarrow> fault + world" where
  "complete DirectoryListCallback request w = Inr (directoryListCallback request w)"
| "complete FileDeleteCallback request w = Inr (fileDeleteCallback request w)"
| "complete FileOpenCallback request w = Inr (fileOpenCallback request w)"
| "complete FileSizeCallback request w = Inr (fileSizeCallback request w)"
| "complete FileCloseCallback request w = Inr (fileCloseCallback request w)"
| "complete FileReadBytesCallback request w = fileReadBytesCallback request w"
| "complete RealPathCallback request w = realPathCallback request w"
| "complete StatCallback request w = statCallback request w"
| "complete FileWriteBytesCallback request w = fileWriteBytesCallback request w"

subsection \<open>Entry points of the file operations\<close>

text \<open>A \<^verbatim>\<open>uv_fs_*\<close> call with a callback hands the request to the reactor.\<close>

definition uv_fs :: "fs_op \<Rightarrow> FileRequestData \<Rightarrow> callback \<Rightarrow> world \<Rightarrow> world" where
  "uv_fs operation d cb w = emit (UvFs operation d cb) w"

definition directoryList :: "world \<Rightarrow> fault + world" where
  "directoryList w =
     (case wrenGetSlotString w 1 of
        None \<Rightarrow> Inl BadSlot
      | Some path \<Rightarrow>
          let (request, w1) = createRequest (wrenGetSlotValue w 2) w
          in Inr (uv_fs (Scandir path 0) request DirectoryListCallback w1))"

definition fileAllocate :: "world \<Rightarrow> fault + world" where
  "fileAllocate w =
     (let (fd, w1) = wrenSetSlotNewForeign 0 0 w
      in case wrenGetSlotDouble w1 1 of
           None \<Rightarrow> Inl BadSlot
         | Some d \<Rightarrow>
             (case int_of_double d of
                None \<Rightarrow> Inl CastOutOfRange
              | Some descriptor \<Rightarrow> Inr (store_foreign fd (FileData descriptor) w1)))"

definition fileDelete :: "world \<Rightarrow> fault + world" where
  "fileDelete w =
     (case wrenGetSlotString w 1 of
        None \<Rightarrow> Inl BadSlot
      | Some path \<Rightarrow>
          let (request, w1) = createRequest (wrenGetSlotValue w 2) w
          in Inr (uv_fs (Unlink path) request FileDeleteCallback w1))"

text \<open>The native open flags and permission bits come from the platform's headers
  (fcntl.h, sys/stat.h); they are a parameter.\<close>

record platform =
  O_RDONLY :: c_int
  O_WRONLY :: c_int
  O_RDWR :: c_int
  O_SYNC :: c_int
  O_CREAT :: c_int
  O_TRUNC :: c_int
  O_EXCL :: c_int
  S_IRUSR :: c_int
  S_IWUSR :: c_int

definition mapFileFlags :: "platform \<Rightarrow> c_int \<Rightarrow> c_int" where
  "mapFileFlags p flags =
     (let r0 = 0;
          r1 = (if flags AND 0x01 \<noteq> 0 then r0 OR O_RDONLY p else r0);
          r2 = (if flags AND 0x02 \<noteq> 0 then r1 OR O_WRONLY p else r1);
          r3 = (if flags AND 0x04 \<noteq> 0 then r2 OR O_RDWR p else r2);
          r4 = (if flags AND 0x08 \<noteq> 0 then r3 OR O_SYNC p else r3);
          r5 = (if flags AND 0x10 \<noteq> 0 then r4 OR O_CREAT p else r4);
          r6 = (if flags AND 0x20 \<noteq> 0 then r5 OR O_TRUNC p else r5);
          r7 = (if flags AND 0x40 \<noteq> 0 then r6 OR O_EXCL p else r6)
      in r7)"

definition fileOpen :: "platform \<Rightarrow> world \<Rightarrow> fault + world" where
  "fileOpen p w =
     (case wrenGetSlotString w 1 of
        None \<Rightarrow> Inl BadSlot
      | Some path \<Rightarrow>
          (case wrenGetSlotDouble w 2 of
             None \<Rightarrow> Inl BadSlot
           | Some d \<Rightarrow>
               (case int_of_double d of
                  None \<Rightarrow> Inl CastOutOfRange
                | Some flags \<Rightarrow>
                    let (request, w1) = createRequest (wrenGetSlotValue w 3) w
                    in Inr (uv_fs (Open path (mapFileFlags p flags) (S_IRUSR p OR S_IWUSR p))
                              request FileOpenCallback w1))))"

definition fileSizePath :: "world \<Rightarrow> fault + world" where
  "fileSizePath w =
     (case wrenGetSlotString w 1 of
        None \<Rightarrow> Inl BadSlot
      | Some path \<Rightarrow>
          let (request, w1) = createRequest (wrenGetSlotValue w 2) w
          in Inr (uv_fs (Stat path) request FileSizeCallback w1))"

text \<open>The descriptor a foreign File object stores, read through its pointer.\<close>

definition load_fd :: "world \<Rightarrow> nat \<Rightarrow> c_int option" where
  "load_fd w p = (case objects w p of Some (FileData fd) \<Rightarrow> Some fd | _ \<Rightarrow> None)"

definition fileClose :: "world \<Rightarrow> fault + world" where
  "fileClose w =
     (case wrenGetSlotForeign w 0 of
        None \<Rightarrow> Inl BadSlot
      | Some foreign \<Rightarrow>
          (case load_fd w foreign of
             None \<Rightarrow> Inl BadSlot
           | Some fd \<Rightarrow>
               if fd = - 1 then Inr (wrenSetSlotBool 0 True w)
               else
                 let w1 = store_foreign foreign (FileData (- 1)) w;
                     (request, w2) = createRequest (wrenGetSlotValue w1 1) w1;
                     w3 = uv_fs (Close fd) request FileCloseCallback w2
                 in Inr (wrenSetSlotBool 0 False w3)))"

text \<open>\<^verbatim>\<open>malloc(length)\<close>: the content of fresh memory is indeterminate; it is
  represented by zero bytes, and nothing below depends on it.\<close>

definition fileReadBytes :: "world \<Rightarrow> fault + world" where
  "fileReadBytes w =
     (let (request, w1) = createRequest (wrenGetSlotValue w 3) w
      in case wrenGetSlotForeign w1 0 of
           None \<Rightarrow> Inl BadSlot
         | Some foreign \<Rightarrow>
             (case load_fd w1 foreign of
                None \<Rightarrow> Inl BadSlot
              | Some fd \<Rightarrow>
                  (case (wrenGetSlotDouble w1 1, wrenGetSlotDouble w1 2) of
                     (Some d1, Some d2) \<Rightarrow>
                       (case (size_t_of_double d1, size_t_of_double d2) of
                          (Some buffer_length, Some offset) \<Rightarrow>
                            let w2 = emit (Malloc BufferMem) w1;
                                request' = request\<lparr> buffer :=
                                  Buffer (replicate (unat buffer_length) 0) buffer_length \<rparr>
                            in Inr (uv_fs (Read fd offset) request' FileReadBytesCallback w2)
                        | _ \<Rightarrow> Inl CastOutOfRange)
                   | _ \<Rightarrow> Inl BadSlot)))"

definition fileRealPath :: "world \<Rightarrow> fault + world" where
  "fileRealPath w =
     (case wrenGetSlotString w 1 of
        None \<Rightarrow> Inl BadSlot
      | Some path \<Rightarrow>
          let (request, w1) = createRequest (wrenGetSlotValue w 2) w
          in Inr (uv_fs (Realpath path) request RealPathCallback w1))"

definition fileStat :: "world \<Rightarrow> fault + world" where
  "fileStat w =
     (case wrenGetSlotForeign w 0 of
        None \<Rightarrow> Inl BadSlot
      | Some foreign \<Rightarrow>
          (case load_fd w foreign of
             None \<Rightarrow> Inl BadSlot
           | Some fd \<Rightarrow>
               let (request, w1) = createRequest (wrenGetSlotValue w 1) w
               in Inr (uv_fs (Fstat fd) request StatCallback w1)))"

definition fileSize :: "world \<Rightarrow> fault + world" where
  "fileSize w =
     (case wrenGetSlotForeign w 0 of
        None \<Rightarrow> Inl BadSlot
      | Some foreign \<Rightarrow>
          (case load_fd w foreign of
             None \<Rightarrow> Inl BadSlot
           | Some fd \<Rightarrow>
               let (request, w1) = createRequest (wrenGetSlotValue w 1) w
               in Inr (uv_fs (Fstat fd) request FileSizeCallback w1)))"

text \<open>\<^verbatim>\<open>fileWriteBytes\<close>: \<^verbatim>\<open>length\<close> is an \<^verbatim>\<open>int\<close>, widened to \<^verbatim>\<open>size_t\<close> for the
  buffer; the owned buffer is a copy of the caller's bytes.\<close>

definition fileWriteBytes :: "world \<Rightarrow> fault + world" where
  "fileWriteBytes w =
     (case wrenGetSlotForeign w 0 of
        None \<Rightarrow> Inl BadSlot
      | Some foreign \<Rightarrow>
          (case load_fd w foreign of
             None \<Rightarrow> Inl BadSlot
           | Some fd \<Rightarrow>
               (case (wrenGetSlotBytes w 1, wrenGetSlotDouble w 2) of
                  (Some bytes, Some d2) \<Rightarrow>
                    (case size_t_of_double d2 of
                       None \<Rightarrow> Inl CastOutOfRange
                     | Some offset \<Rightarrow>
                         let length = (word_of_nat (List.length bytes) :: c_int);
                             (request, w1) = createRequest (wrenGetSlotValue w 3) w;
                             w2 = emit (Malloc BufferMem) w1;
                             request' = request\<lparr> buffer := Buffer bytes (scast length) \<rparr>
                         in Inr (uv_fs (Write fd offset) request' FileWriteBytesCallback w2))
                | _ \<Rightarrow> Inl BadSlot)))"

definition statPath :: "world \<Rightarrow> fault + world" where
  "statPath w =
     (case wrenGetSlotString w 1 of
        None \<Rightarrow> Inl BadSlot
      | Some path \<Rightarrow>
          let (request, w1) = createRequest (wrenGetSlotValue w 2) w
          in Inr (uv_fs (Stat path) request StatCallback w1))"

subsection \<open>Standard input\<close>

definition shutdownStdin :: "world \<Rightarrow> world" where
  "shutdownStdin w =
     (let w1 = (case stdinStream w of
                  Some s \<Rightarrow> (emit (Free StreamMem) (emit (UvClose s) w))\<lparr> stdinStream := None \<rparr>
                | None \<Rightarrow> w);
          w2 = (case stdinClass w1 of
                  Some c \<Rightarrow> (wrenReleaseValue c w1)\<lparr> stdinClass := None \<rparr>
                | None \<Rightarrow> w1);
          w3 = (case stdinOnData w2 of
                  Some m \<Rightarrow> (wrenReleaseValue m w2)\<lparr> stdinOnData := None \<rparr>
                | None \<Rightarrow> w2)
      in w3)"

definition ioShutdown :: "world \<Rightarrow> world" where
  "ioShutdown w =
     (let w1 = shutdownStdin w
      in case statClass w1 of
           Some c \<Rightarrow> (wrenReleaseValue c w1)\<lparr> statClass := None \<rparr>
         | None \<Rightarrow> w1)"

text \<open>\<^verbatim>\<open>stdinReadCallback(stream, numRead, buffer)\<close>. Passing a null handle to the VM is
  a null dereference; after the two lazy initialisations it cannot happen.\<close>

definition stdinReadCallback :: "ssize_t \<Rightarrow> uv_buf_t \<Rightarrow> world \<Rightarrow> fault + world" where
  "stdinReadCallback numRead buf w =
     (let w1 = (if stdinClass w = None
                then let w' = wrenGetVariable ''io'' ''Stdin'' 0 (wrenEnsureSlots 1 w)
                     in w'\<lparr> stdinClass := Some (wrenGetSlotValue w' 0) \<rparr>
                else w);
          w2 = (if stdinOnData w1 = None
                then let (h, w') = wrenMakeCallHandle ''onData_(_)'' w1
                     in w'\<lparr> stdinOnData := Some h \<rparr>
                else w1)
      in case (stdinClass w2, stdinOnData w2) of
           (Some cls, Some onData) \<Rightarrow>
             if numRead = UV_EOF then
               let w3 = wrenEnsureSlots 2 w2;
                   w4 = wrenSetSlotValue 0 cls w3;
                   w5 = wrenSetSlotNull 1 w4;
                   w6 = wrenCall onData w5
               in Inr (shutdownStdin w6)
             else
               let w3 = wrenEnsureSlots 2 w2;
                   w4 = wrenSetSlotValue 0 cls w3
               in (case buf of
                     NoBuffer \<Rightarrow> Inl UnsetBuffer
                   | Buffer buffer_base buffer_len \<Rightarrow>
                       (case wrenSetSlotBytes 1 buffer_base numRead w4 of
                          Inl e \<Rightarrow> Inl e
                        | Inr w5 \<Rightarrow>
                            let w6 = wrenCall onData w5
                            in Inr (emit (Free BufferMem) w6)))
         | _ \<Rightarrow> Inl NullDereference)"

text \<open>\<^verbatim>\<open>stdinReadStart\<close>; \<open>is_tty\<close> is the answer of
  \<^verbatim>\<open>uv_guess_handle(stdinDescriptor) == UV_TTY\<close>.\<close>

definition stdinReadStart :: "bool \<Rightarrow> world \<Rightarrow> fault + world" where
  "stdinReadStart is_tty w =
     (let w1 = (if stdinStream w = None
                then if is_tty
                     then (emit UvTtyInit (emit (Malloc StreamMem) w))
                            \<lparr> stdinStream := Some TtyStream \<rparr>
                     else (emit UvPipeOpen (emit UvPipeInit (emit (Malloc StreamMem) w)))
                            \<lparr> stdinStream := Some PipeStream \<rparr>
                else w)
      in case stdinStream w1 of
           None \<Rightarrow> Inl NullDereference
         | Some s \<Rightarrow> Inr (emit (UvReadStart s) w1))"

text \<open>\<^verbatim>\<open>stdinReadStop\<close> passes the global to \<^verbatim>\<open>uv_read_stop\<close>, which dereferences
  it.\<close>

definition stdinReadStop :: "world \<Rightarrow> fault + world" where
  "stdinReadStop w =
     (case stdinStream w of
        None \<Rightarrow> Inl NullDereference
      | Some s \<Rightarrow> Inr (emit (UvReadStop s) w))"

text \<open>
  What can happen to the stdin subsystem, one step at a time: the script calls
  \<^verbatim>\<open>stdinReadStart\<close> or \<^verbatim>\<open>stdinReadStop\<close>, the reactor delivers a read completion, or
  the process calls \<^verbatim>\<open>ioShutdown\<close>. A step admits a delivery whenever the stream
  exists. This is coarser than libuv, which also stops delivering after
  \<^verbatim>\<open>uv_read_stop\<close>: the runs include every sequence of calls that can happen.
\<close>

datatype stdin_op = ReadStart bool | ReadStop | Deliver ssize_t uv_buf_t | Shutdown

fun stdin_step :: "stdin_op \<Rightarrow> world \<Rightarrow> fault + world" where
  "stdin_step (ReadStart is_tty) w = stdinReadStart is_tty w"
| "stdin_step ReadStop w = stdinReadStop w"
| "stdin_step (Deliver numRead buf) w =
     (if stdinStream w = None then Inl ReactorIdle else stdinReadCallback numRead buf w)"
| "stdin_step Shutdown w = Inr (ioShutdown w)"

fun stdin_run :: "stdin_op list \<Rightarrow> world \<Rightarrow> fault + world" where
  "stdin_run [] w = Inr w"
| "stdin_run (x # xs) w =
     (case stdin_step x w of Inl e \<Rightarrow> Inl e | Inr w' \<Rightarrow> stdin_run xs w')"

text \<open>
  libuv's side of the stdin stream, read off the calls made so far: it invokes the read
  callback of a stream only after \<^verbatim>\<open>uv_read_start\<close> and before the next
  \<^verbatim>\<open>uv_read_stop\<close> or \<^verbatim>\<open>uv_close\<close> on it. \<open>deliver\<close> is one invocation of
  \<^verbatim>\<open>stdinReadCallback\<close> by libuv under this rule.
\<close>

fun reading_after :: "bool \<Rightarrow> event \<Rightarrow> bool" where
  "reading_after r (UvReadStart s) = True"
| "reading_after r (UvReadStop s) = False"
| "reading_after r (UvClose s) = False"
| "reading_after r e = r"

definition reactor_reading :: "event list \<Rightarrow> bool" where
  "reactor_reading evs = foldl reading_after False evs"

definition deliver :: "ssize_t \<Rightarrow> uv_buf_t \<Rightarrow> world \<Rightarrow> fault + world" where
  "deliver numRead buf w =
     (if reactor_reading (trace w) then stdinReadCallback numRead buf w else Inl ReactorIdle)"

section \<open>Reading traces\<close>

text \<open>The entries a completed scan still has to hand out.\<close>

definition entries :: "uv_fs_t \<Rightarrow> uv_dirent_t list" where
  "entries request = (case ptr request of Dirents es \<Rightarrow> es | _ \<Rightarrow> [])"

text \<open>The two calls of one turn of the loop of \<^verbatim>\<open>directoryListCallback\<close>.\<close>

definition entry_events :: "uv_dirent_t \<Rightarrow> event list" where
  "entry_events e = [WrenSetSlot 1 (WString (name e)), WrenInsertInList 2 (- 1) 1]"

text \<open>The three calls with which \<^verbatim>\<open>freeRequest\<close> and \<^verbatim>\<open>handleRequestError\<close> free a
  request record.\<close>

definition record_frees :: "event list" where
  "record_frees = [Free RequestDataMem, UvFsReqCleanup, Free RequestMem]"

text \<open>
  What libuv promises about the request it hands to a callback: a read or write request
  still carries the buffer it was issued with, a successful read reports no more bytes
  than the buffer holds, and a successful realpath has left the resolved path in
  \<^verbatim>\<open>request->ptr\<close>.
\<close>

fun reactor_contract :: "callback \<Rightarrow> uv_fs_t \<Rightarrow> bool" where
  "reactor_contract FileReadBytesCallback request =
     (case buffer (data request) of
        NoBuffer \<Rightarrow> False
      | Buffer b l \<Rightarrow> sint (result request) < 0 \<or> unat (result request) \<le> length b)"
| "reactor_contract FileWriteBytesCallback request =
     (case buffer (data request) of NoBuffer \<Rightarrow> False | Buffer b l \<Rightarrow> True)"
| "reactor_contract RealPathCallback request =
     (case ptr request of PathPtr p \<Rightarrow> True | _ \<Rightarrow> sint (result request) < 0)"
| "reactor_contract cb request = True"

text \<open>The events of a successful completion, callback by callback, written out.\<close>

fun success_events :: "callback \<Rightarrow> uv_fs_t \<Rightarrow> world \<Rightarrow> event list" where
  "success_events DirectoryListCallback request w =
     [WrenEnsureSlots 3, WrenSetSlot 2 (WList [])] @ concat (map entry_events (entries request)) @
     record_frees @
     [SchedulerResume (fiber (data request)) True,
      SchedulerFinishResume (WList (map (\<lambda>e. WString (name e)) (entries request)))]"
| "success_events FileDeleteCallback request w =
     record_frees @ [SchedulerResume (fiber (data request)) False]"
| "success_events FileOpenCallback request w =
     record_frees @
     [SchedulerResume (fiber (data request)) True,
      WrenSetSlot 2 (WNum (double_of_int (sint (result request)))),
      SchedulerFinishResume (WNum (double_of_int (sint (result request))))]"
| "success_events FileSizeCallback request w =
     record_frees @
     [SchedulerResume (fiber (data request)) True,
      WrenSetSlot 2 (WNum (double_of_int (uint (st_size (statbuf request))))),
      SchedulerFinishResume (WNum (double_of_int (uint (st_size (statbuf request)))))]"
| "success_events FileCloseCallback request w =
     record_frees @ [SchedulerResume (fiber (data request)) False]"
| "success_events FileReadBytesCallback request w =
     record_frees @
     [SchedulerResume (fiber (data request)) True,
      WrenSetSlot 2 (WBytes (take (unat (result request)) (base (buffer (data request))))),
      SchedulerFinishResume (WBytes (take (unat (result request)) (base (buffer (data request))))),
      Free BufferMem]"
| "success_events RealPathCallback request w =
     [WrenEnsureSlots 3] @
     (case ptr request of PathPtr p \<Rightarrow> [WrenSetSlot 2 (WString p)] | _ \<Rightarrow> []) @
     record_frees @
     [SchedulerResume (fiber (data request)) True,
      SchedulerFinishResume (case ptr request of PathPtr p \<Rightarrow> WString p | _ \<Rightarrow> WNull)]"
| "success_events StatCallback request w =
     [WrenEnsureSlots 3] @
     (case statClass w of
        None \<Rightarrow> [WrenGetVariable ''io'' ''Stat'' 0, WrenSetSlot 2 (WClass ''io'' ''Stat'')]
      | Some cls \<Rightarrow> [WrenSetSlot 2 cls]) @
     [WrenSetSlot 2 (WForeign (next_object w)),
      StoreForeign (next_object w) (StatData (statbuf request))] @
     record_frees @
     [SchedulerResume (fiber (data request)) True,
      SchedulerFinishResume (WForeign (next_object w))]"
| "success_events FileWriteBytesCallback request w =
     [Free BufferMem] @ record_frees @ [SchedulerResume (fiber (data request)) False]"

text \<open>A call that triggers the resumption of a fiber, on the value path or on the error
  path.\<close>

fun is_resumption :: "event \<Rightarrow> bool" where
  "is_resumption (SchedulerResume f hasArgument) = True"
| "is_resumption (SchedulerResumeError f msg) = True"
| "is_resumption e = False"

text \<open>A call with which a resumption is complete: a resume without argument, an error
  resume, or the finish that follows a resume with argument.\<close>

fun is_handoff :: "event \<Rightarrow> bool" where
  "is_handoff (SchedulerResume f hasArgument) = (\<not> hasArgument)"
| "is_handoff (SchedulerResumeError f msg) = True"
| "is_handoff (SchedulerFinishResume v) = True"
| "is_handoff e = False"

text \<open>The callbacks of the operations that produce a value.\<close>

fun has_value :: "callback \<Rightarrow> bool" where
  "has_value FileDeleteCallback = False"
| "has_value FileCloseCallback = False"
| "has_value FileWriteBytesCallback = False"
| "has_value cb = True"

text \<open>Whether a trace frees the request record (all three calls of \<open>record_frees\<close>)
  before the call that triggers the resumption.\<close>

definition record_freed_before_resumption :: "event list \<Rightarrow> bool" where
  "record_freed_before_resumption evs \<longleftrightarrow>
     set record_frees \<subseteq> set (takeWhile (\<lambda>e. \<not> is_resumption e) evs)"

text \<open>Whether a trace frees the owned buffer, and only after the resumption is
  complete.\<close>

definition buffer_freed_after_handoff :: "event list \<Rightarrow> bool" where
  "buffer_freed_after_handoff evs \<longleftrightarrow>
     Free BufferMem \<notin> set (takeWhile (\<lambda>e. \<not> is_handoff e) evs) \<and>
     Free BufferMem \<in> set (tl (dropWhile (\<lambda>e. \<not> is_handoff e) evs))"

text \<open>
  The order of a trace's calls, with nothing but the calls in question left in it:
  \<open>record_order\<close> keeps the calls that trigger a resumption and the calls that free the
  request record; \<open>buffer_order\<close> keeps the calls that trigger or finish a resumption
  and the call that frees the owned buffer.
\<close>

fun is_record_free :: "event \<Rightarrow> bool" where
  "is_record_free (Free m) = (m = RequestDataMem \<or> m = RequestMem)"
| "is_record_free UvFsReqCleanup = True"
| "is_record_free e = False"

fun is_finish :: "event \<Rightarrow> bool" where
  "is_finish (SchedulerFinishResume v) = True"
| "is_finish e = False"

definition record_order :: "event list \<Rightarrow> event list" where
  "record_order evs = filter (\<lambda>e. is_resumption e \<or> is_record_free e) evs"

definition buffer_order :: "event list \<Rightarrow> event list" where
  "buffer_order evs = filter (\<lambda>e. is_resumption e \<or> is_finish e \<or> e = Free BufferMem) evs"

text \<open>The phases of a resumption, read off a trace: the resume call, a write to the
  result slot (slot 2), the finish call.\<close>

datatype phase = PResume bool | PWriteResult | PFinish

fun phase_of :: "event \<Rightarrow> phase list" where
  "phase_of (SchedulerResume f hasArgument) = [PResume hasArgument]"
| "phase_of (SchedulerFinishResume v) = [PFinish]"
| "phase_of (WrenSetSlot n v) = (if n = 2 then [PWriteResult] else [])"
| "phase_of (WrenInsertInList listSlot index elementSlot) =
     (if listSlot = 2 then [PWriteResult] else [])"
| "phase_of e = []"

definition phases :: "event list \<Rightarrow> phase list" where
  "phases evs = concat (map phase_of evs)"

text \<open>The events a completion adds, or none when the callback faults.\<close>

definition completion_events :: "callback \<Rightarrow> uv_fs_t \<Rightarrow> world \<Rightarrow> event list" where
  "completion_events cb request w =
     (case complete cb request w of Inr w' \<Rightarrow> new_events w w' | Inl e \<Rightarrow> [])"

text \<open>The phases of a successful completion, callback by callback: open, size and read
  write the result between resume and finish; realpath, stat and the directory listing
  have written it before they resume (stat writes slot 2 twice, the listing once for the
  new list and once per entry); delete, close and write resume without argument.\<close>

fun expected_phases :: "callback \<Rightarrow> uv_fs_t \<Rightarrow> phase list" where
  "expected_phases FileOpenCallback request = [PResume True, PWriteResult, PFinish]"
| "expected_phases FileSizeCallback request = [PResume True, PWriteResult, PFinish]"
| "expected_phases FileReadBytesCallback request = [PResume True, PWriteResult, PFinish]"
| "expected_phases RealPathCallback request = [PWriteResult, PResume True, PFinish]"
| "expected_phases StatCallback request = [PWriteResult, PWriteResult, PResume True, PFinish]"
| "expected_phases DirectoryListCallback request =
     replicate (Suc (length (entries request))) PWriteResult @ [PResume True, PFinish]"
| "expected_phases cb request = [PResume False]"

text \<open>An invocation of the stdin data handler.\<close>

fun is_handler_call :: "event \<Rightarrow> bool" where
  "is_handler_call (WrenCall method receiver argument) = True"
| "is_handler_call e = False"

text \<open>The class and method handles \<^verbatim>\<open>stdinReadCallback\<close> works with, and the calls with
  which it resolves those it has not cached.\<close>

definition resolved_class :: "world \<Rightarrow> WrenValue" where
  "resolved_class w = (case stdinClass w of Some c \<Rightarrow> c | None \<Rightarrow> WClass ''io'' ''Stdin'')"

definition resolved_method :: "world \<Rightarrow> WrenValue" where
  "resolved_method w = (case stdinOnData w of Some m \<Rightarrow> m | None \<Rightarrow> WMethod ''onData_(_)'')"

definition lazy_init_events :: "world \<Rightarrow> event list" where
  "lazy_init_events w =
     (if stdinClass w = None then [WrenEnsureSlots 1, WrenGetVariable ''io'' ''Stdin'' 0] else []) @
     (if stdinOnData w = None then [WrenMakeCallHandle ''onData_(_)''] else [])"

text \<open>The events of a run of the stdin subsystem, or none when the run faults.\<close>

definition stdin_run_events :: "stdin_op list \<Rightarrow> world \<Rightarrow> event list" where
  "stdin_run_events ops w =
     (case stdin_run ops w of Inr w' \<Rightarrow> new_events w w' | Inl e \<Rightarrow> [])"

text \<open>Whether the stream exists after a step, given whether it existed before; and
  whether, in a sequence of steps from program start, \<^verbatim>\<open>stdinReadStart\<close> has been called
  since the last shutdown (\<^verbatim>\<open>ioShutdown\<close>, or the delivery of end-of-stream).\<close>

fun stream_after :: "bool \<Rightarrow> stdin_op \<Rightarrow> bool" where
  "stream_after live (ReadStart is_tty) = True"
| "stream_after live ReadStop = live"
| "stream_after live (Deliver numRead buf) = (live \<and> numRead \<noteq> UV_EOF)"
| "stream_after live Shutdown = False"

definition started_since_shutdown :: "stdin_op list \<Rightarrow> bool" where
  "started_since_shutdown ops = foldl stream_after False ops"

section \<open>Concrete inputs\<close>

text \<open>A request that failed with \<^verbatim>\<open>UV_ENOENT\<close> (\<open>-2\<close>), for fiber 7.\<close>

definition req_enoent :: uv_fs_t where
  "req_enoent = \<lparr> data = \<lparr> fiber = WFiber 7, buffer = NoBuffer \<rparr>, result = - 2,
     statbuf = \<lparr> st_dev = 0, st_mode = 0, st_nlink = 0, st_uid = 0, st_gid = 0, st_rdev = 0,
       st_ino = 0, st_size = 0, st_blksize = 0, st_blocks = 0 \<rparr>, ptr = NoPtr \<rparr>"

text \<open>Completed requests for fiber 7: a success with result 3; a realpath that resolved
  to \<^verbatim>\<open>/tmp/a\<close>; a write of two bytes; a read of two bytes into a buffer of four; a
  scan that found \<^verbatim>\<open>b\<close> and \<^verbatim>\<open>a\<close>, in this order.\<close>

definition req_ok :: uv_fs_t where
  "req_ok = req_enoent\<lparr> result := 3 \<rparr>"

definition req_realpath :: uv_fs_t where
  "req_realpath = req_enoent\<lparr> result := 0, ptr := PathPtr ''/tmp/a'' \<rparr>"

definition req_write :: uv_fs_t where
  "req_write = req_enoent\<lparr> data := \<lparr> fiber = WFiber 7, buffer = Buffer [104, 105] 2 \<rparr>,
     result := 2 \<rparr>"

definition req_read :: uv_fs_t where
  "req_read = req_enoent\<lparr> data := \<lparr> fiber = WFiber 7, buffer = Buffer [104, 105, 0, 0] 4 \<rparr>,
     result := 2 \<rparr>"

definition req_scan :: uv_fs_t where
  "req_scan = req_enoent\<lparr> result := 2,
     ptr := Dirents [\<lparr> name = ''b'' \<rparr>, \<lparr> name = ''a'' \<rparr>] \<rparr>"

text \<open>Two states with one File object at address 0, the receiver in slot 0, and fiber 7
  in slot 1: in the first the File holds descriptor 5, in the second it is closed.\<close>

definition w_file :: world where
  "w_file = world0\<lparr> slots := (\<lambda>_. WNull)(0 := WForeign 0, 1 := WFiber 7),
     objects := [0 \<mapsto> FileData 5], next_object := 1 \<rparr>"

definition w_closed :: world where
  "w_closed = w_file\<lparr> objects := [0 \<mapsto> FileData (- 1)] \<rparr>"

text \<open>The open flags of Linux on x86-64 (fcntl.h), with the owner's permission bits.\<close>

definition linux :: platform where
  "linux = \<lparr> O_RDONLY = 0, O_WRONLY = 1, O_RDWR = 2, O_SYNC = 0x101000, O_CREAT = 0x40,
     O_TRUNC = 0x200, O_EXCL = 0x80, S_IRUSR = 0x100, S_IWUSR = 0x80 \<rparr>"

text \<open>The state after \<^verbatim>\<open>stdinReadStart\<close> at program start, with stdin a pipe.\<close>

definition w_reading :: world where
  "w_reading = world0\<lparr> stdinStream := Some PipeStream,
     trace := [Malloc StreamMem, UvPipeInit, UvPipeOpen, UvReadStart PipeStream] \<rparr>"

section \<open>Auxiliary facts\<close>

declare directoryListCallback_loop.simps [simp del]

lemmas callback_defs = directoryListCallback_def fileDeleteCallback_def fileOpenCallback_def
  fileSizeCallback_def fileCloseCallback_def fileReadBytesCallback_def realPathCallback_def
  statCallback_def fileWriteBytesCallback_def

lemmas io_defs = emit_def wrenSetSlot_def wrenEnsureSlots_def wrenSetSlotBool_def
  wrenSetSlotDouble_def wrenSetSlotString_def wrenSetSlotBytes_def wrenSetSlotNull_def
  wrenSetSlotValue_def wrenSetSlotNewList_def wrenInsertInList_def wrenGetVariable_def
  wrenGetSlotValue_def wrenGetSlotString_def wrenGetSlotDouble_def wrenGetSlotBytes_def
  wrenGetSlotForeign_def wrenSetSlotNewForeign_def store_foreign_def wrenMakeCallHandle_def
  wrenReleaseValue_def wrenCall_def schedulerResume_def schedulerFinishResume_def
  schedulerResumeError_def createRequest_def freeRequest_def uv_fs_def

text \<open>Below \<open>2 ^ 53\<close> the conversion to a double changes nothing.\<close>

lemma double_of_int_exact:
  assumes "\<bar>x\<bar> < 2 ^ 53"
  shows "double_of_int x = x"
proof -
  have "(2::int) ^ 53 \<le> 2 ^ (53 + k)" for k :: nat
    by (rule power_increasing) simp_all
  with assms have "filter (\<lambda>k. 2 ^ (53 + k) \<le> \<bar>x\<bar>) [0..<12] = []"
    by (auto simp: filter_empty_conv intro: order.strict_trans2 dest: leD)
  then show ?thesis
    by (simp add: double_of_int_def Let_def mult_sgn_abs)
qed

lemma new_events_append: "trace w' = trace w @ evs \<Longrightarrow> new_events w w' = evs"
  by (simp add: new_events_def)

lemma not_handled:
  "0 \<le> sint (result request) \<Longrightarrow> handleRequestError request w = (False, w)"
  by (simp add: handleRequestError_def)

text \<open>The loop of the directory listing.\<close>

lemma loop_no_entries:
  "entries request = [] \<Longrightarrow> directoryListCallback_loop request w = (request, w)"
  by (subst directoryListCallback_loop.simps)
     (auto simp: entries_def uv_fs_scandir_next_def split: req_ptr.splits list.splits)

lemma loop_entry:
  "entries request = e # es \<Longrightarrow>
   directoryListCallback_loop request w =
     directoryListCallback_loop (request\<lparr> ptr := Dirents es \<rparr>)
       (wrenInsertInList 2 (- 1) 1 (wrenSetSlotString 1 (name e) w))"
  by (subst directoryListCallback_loop.simps)
     (auto simp: entries_def uv_fs_scandir_next_def split: req_ptr.splits list.splits)

lemma entries_advance: "entries (request\<lparr> ptr := Dirents es \<rparr>) = es"
  by (simp add: entries_def)

lemma loop_trace:
  "entries request = es \<Longrightarrow>
   trace (snd (directoryListCallback_loop request w)) = trace w @ concat (map entry_events es)"
proof (induction es arbitrary: request w)
  case Nil
  then show ?case by (simp add: loop_no_entries)
next
  case (Cons e es)
  from Cons.IH [OF entries_advance] Cons.prems show ?case
    by (simp add: loop_entry entry_events_def wrenInsertInList_def wrenSetSlotString_def
        wrenSetSlot_def emit_def split: wvalue.splits)
qed

lemma loop_list:
  "entries request = es \<Longrightarrow> slots w 2 = WList xs \<Longrightarrow>
   slots (snd (directoryListCallback_loop request w)) 2 =
     WList (xs @ map (\<lambda>e. WString (name e)) es)"
proof (induction es arbitrary: request w xs)
  case Nil
  then show ?case by (simp add: loop_no_entries)
next
  case (Cons e es)
  let ?w = "wrenInsertInList 2 (- 1) 1 (wrenSetSlotString 1 (name e) w)"
  have "slots ?w 2 = WList (xs @ [WString (name e)])"
    using Cons.prems(2)
    by (simp add: wrenInsertInList_def wrenSetSlotString_def wrenSetSlot_def emit_def
        insert_at_def)
  from Cons.IH [OF entries_advance this] Cons.prems(1) show ?case
    by (simp add: loop_entry)
qed

lemma loop_data: "data (fst (directoryListCallback_loop request w)) = data request"
proof (induction "entries request" arbitrary: request w)
  case Nil
  then show ?case by (simp add: loop_no_entries)
next
  case (Cons e es)
  from Cons.hyps(1) [of "request\<lparr> ptr := Dirents es \<rparr>"] Cons.hyps(2) [symmetric]
  show ?case
    by (simp add: loop_entry entries_advance)
qed

lemma directoryListCallback_success:
  assumes "0 \<le> sint (result request)"
  shows "trace (directoryListCallback request w) =
           trace w @ success_events DirectoryListCallback request w"
proof -
  let ?w2 = "wrenSetSlotNewList 2 (wrenEnsureSlots 3 w)"
  obtain request' w3 where loop: "directoryListCallback_loop request ?w2 = (request', w3)"
    by (cases "directoryListCallback_loop request ?w2")
  have tr: "trace w3 = trace ?w2 @ concat (map entry_events (entries request))"
    using loop_trace [OF refl, of request ?w2] loop by simp
  have "slots ?w2 2 = WList []"
    by (simp add: io_defs)
  from loop_list [OF refl this, of request] loop
  have sl: "slots w3 2 = WList (map (\<lambda>e. WString (name e)) (entries request))"
    by simp
  have da: "data request' = data request"
    using loop_data [of request ?w2] loop by simp
  have "directoryListCallback request w =
          schedulerFinishResume
            (schedulerResume (fiber (data request')) True
               (emit (Free RequestMem) (emit UvFsReqCleanup (emit (Free RequestDataMem) w3))))"
    using assms
    by (simp add: directoryListCallback_def not_handled loop freeRequest_def Let_def)
  then show ?thesis
    using tr sl da
    by (simp add: record_frees_def io_defs)
qed

text \<open>The trace of a completion, on the success path and on the error path.\<close>

lemma complete_success:
  assumes "0 \<le> sint (result request)" and "reactor_contract cb request"
  shows "\<exists>w'. complete cb request w = Inr w' \<and> trace w' = trace w @ success_events cb request w"
proof (cases cb)
  case DirectoryListCallback
  then show ?thesis
    using directoryListCallback_success [OF assms(1)] by simp
next
  case FileDeleteCallback
  then show ?thesis
    using assms by (simp add: fileDeleteCallback_def not_handled record_frees_def io_defs Let_def)
next
  case FileOpenCallback
  then show ?thesis
    using assms by (simp add: fileOpenCallback_def not_handled record_frees_def io_defs Let_def)
next
  case FileSizeCallback
  then show ?thesis
    using assms by (simp add: fileSizeCallback_def not_handled record_frees_def io_defs Let_def)
next
  case FileCloseCallback
  then show ?thesis
    using assms by (simp add: fileCloseCallback_def not_handled record_frees_def io_defs Let_def)
next
  case FileReadBytesCallback
  then show ?thesis
    using assms
    by (auto simp: fileReadBytesCallback_def not_handled record_frees_def io_defs Let_def
        split: uv_buf_t.splits)
next
  case RealPathCallback
  then show ?thesis
    using assms
    by (auto simp: realPathCallback_def not_handled record_frees_def io_defs Let_def
        split: req_ptr.splits)
next
  case StatCallback
  then show ?thesis
    using assms
    by (auto simp: statCallback_def not_handled record_frees_def io_defs Let_def
        split: option.splits)
next
  case FileWriteBytesCallback
  then show ?thesis
    using assms
    by (auto simp: fileWriteBytesCallback_def not_handled record_frees_def io_defs Let_def
        split: uv_buf_t.splits)
qed

lemma complete_failure:
  assumes "sint (result request) < 0"
  shows "\<exists>w'. complete cb request w = Inr w' \<and>
           trace w' = trace w @
             SchedulerResumeError (fiber (data request)) (uv_strerror (ucast (result request))) #
             record_frees"
proof -
  from assms have h: "handleRequestError request w =
      (True, w\<lparr> trace := trace w @
         SchedulerResumeError (fiber (data request)) (uv_strerror (ucast (result request))) #
         record_frees \<rparr>)"
    by (simp add: handleRequestError_def Let_def schedulerResumeError_def emit_def
        record_frees_def)
  show ?thesis
    by (cases cb) (simp_all add: callback_defs h)
qed

lemma filter_resumption_entries [simp]:
  "filter is_resumption (concat (map entry_events es)) = []"
  by (induction es) (simp_all add: entry_events_def)

lemma phases_entries [simp]:
  "concat (map phase_of (concat (map entry_events es))) = replicate (length es) PWriteResult"
  by (induction es) (simp_all add: entry_events_def)

lemma record_order_entries [simp]:
  "filter (\<lambda>e. is_resumption e \<or> is_record_free e) (concat (map entry_events es)) = []"
  by (induction es) (simp_all add: entry_events_def)

lemma buffer_order_entries [simp]:
  "filter (\<lambda>e. is_resumption e \<or> is_finish e \<or> e = Free BufferMem)
     (concat (map entry_events es)) = []"
  by (induction es) (simp_all add: entry_events_def)

lemma completion_success:
  assumes "0 \<le> sint (result request)" and "reactor_contract cb request"
  shows "completion_events cb request w = success_events cb request w"
  using complete_success [OF assms, of w]
  by (auto simp: completion_events_def new_events_append)

lemma completion_failure:
  assumes "sint (result request) < 0"
  shows "completion_events cb request w =
           SchedulerResumeError (fiber (data request)) (uv_strerror (ucast (result request))) #
           record_frees"
  using complete_failure [OF assms, of cb w]
  by (auto simp: completion_events_def new_events_append)

lemma loop_exhausts: "entries (fst (directoryListCallback_loop request w)) = []"
proof (induction "entries request" arbitrary: request w)
  case Nil
  then show ?case by (simp add: loop_no_entries)
next
  case (Cons e es)
  from Cons.hyps(1) [of "request\<lparr> ptr := Dirents es \<rparr>"] Cons.hyps(2) [symmetric]
  show ?case
    by (simp add: loop_entry entries_advance)
qed

text \<open>The stdin subsystem.\<close>

lemma shutdownStdin_cleared:
  "stdinStream (shutdownStdin w) = None \<and> stdinClass (shutdownStdin w) = None \<and>
   stdinOnData (shutdownStdin w) = None"
  by (simp add: shutdownStdin_def Let_def io_defs split: option.splits)

lemma shutdownStdin_trace:
  "trace (shutdownStdin w) = trace w @
     (case stdinStream w of Some s \<Rightarrow> [UvClose s, Free StreamMem] | None \<Rightarrow> []) @
     (case stdinClass w of Some c \<Rightarrow> [WrenReleaseValue c] | None \<Rightarrow> []) @
     (case stdinOnData w of Some m \<Rightarrow> [WrenReleaseValue m] | None \<Rightarrow> [])"
  by (simp add: shutdownStdin_def Let_def io_defs split: option.splits)

lemma ioShutdown_stream: "stdinStream (ioShutdown w) = None"
  by (simp add: ioShutdown_def Let_def shutdownStdin_cleared io_defs split: option.splits)

lemma eof_delivery:
  "\<exists>w'. stdinReadCallback UV_EOF buf w = Inr w' \<and>
     trace w' = trace w @ lazy_init_events w @
       [WrenEnsureSlots 2, WrenSetSlot 0 (resolved_class w), WrenSetSlot 1 WNull,
        WrenCall (resolved_method w) (resolved_class w) WNull] @
       (case stdinStream w of Some s \<Rightarrow> [UvClose s, Free StreamMem] | None \<Rightarrow> []) @
       [WrenReleaseValue (resolved_class w), WrenReleaseValue (resolved_method w)] \<and>
     stdinStream w' = None \<and> stdinClass w' = None \<and> stdinOnData w' = None"
  by (cases "stdinClass w"; cases "stdinOnData w")
     (simp_all add: stdinReadCallback_def Let_def shutdownStdin_cleared shutdownStdin_trace
        lazy_init_events_def resolved_class_def resolved_method_def io_defs)

lemma reading_needs_start:
  "\<not> r \<Longrightarrow> UvReadStart TtyStream \<notin> set evs \<Longrightarrow> UvReadStart PipeStream \<notin> set evs \<Longrightarrow>
   \<not> foldl reading_after r evs"
proof (induction evs arbitrary: r)
  case Nil
  then show ?case by simp
next
  case (Cons e evs)
  have "\<not> reading_after r e"
  proof (cases e)
    case (UvReadStart s)
    with Cons.prems show ?thesis by (cases s) simp_all
  qed (use Cons.prems in simp_all)
  from Cons.IH [OF this] Cons.prems show ?case by simp
qed

lemma reactor_reading_append:
  "reactor_reading (xs @ ys) = foldl reading_after (reactor_reading xs) ys"
  by (simp add: reactor_reading_def)

lemma data_delivery:
  assumes "numRead \<noteq> UV_EOF" and "unat numRead \<le> length bs"
  shows "\<exists>w'. stdinReadCallback numRead (Buffer bs l) w = Inr w' \<and>
     trace w' = trace w @ lazy_init_events w @
       [WrenEnsureSlots 2, WrenSetSlot 0 (resolved_class w),
        WrenSetSlot 1 (WBytes (take (unat numRead) bs)),
        WrenCall (resolved_method w) (resolved_class w) (WBytes (take (unat numRead) bs)),
        Free BufferMem]"
  using assms
  by (cases "stdinClass w"; cases "stdinOnData w")
     (simp_all add: stdinReadCallback_def Let_def lazy_init_events_def resolved_class_def
        resolved_method_def io_defs)

lemma restart:
  assumes "stdinStream w = None"
  shows "\<exists>w1. stdinReadStart is_tty w = Inr w1 \<and>
     trace w1 = trace w @ Malloc StreamMem #
       (if is_tty then [UvTtyInit, UvReadStart TtyStream]
        else [UvPipeInit, UvPipeOpen, UvReadStart PipeStream]) \<and>
     stdinStream w1 = Some (if is_tty then TtyStream else PipeStream) \<and>
     stdinClass w1 = stdinClass w \<and> stdinOnData w1 = stdinOnData w"
  using assms by (simp add: stdinReadStart_def Let_def io_defs)

lemma step_stream:
  "stdin_step x w = Inr w' \<Longrightarrow>
   (stdinStream w' \<noteq> None) = stream_after (stdinStream w \<noteq> None) x"
proof (cases x)
  case (ReadStart t)
  assume "stdin_step x w = Inr w'"
  with ReadStart show ?thesis
    by (auto simp: stdinReadStart_def Let_def io_defs split: if_splits option.splits)
next
  case ReadStop
  assume "stdin_step x w = Inr w'"
  with ReadStop show ?thesis
    by (auto simp: stdinReadStop_def io_defs split: option.splits)
next
  case (Deliver n b)
  assume a: "stdin_step x w = Inr w'"
  show ?thesis
  proof (cases "n = UV_EOF")
    case True
    with a Deliver eof_delivery [of b w] show ?thesis
      by (auto split: if_splits)
  next
    case False
    with a Deliver show ?thesis
      by (auto simp: stdinReadCallback_def Let_def io_defs
          split: if_splits option.splits uv_buf_t.splits)
  qed
next
  case Shutdown
  assume "stdin_step x w = Inr w'"
  with Shutdown show ?thesis
    by (auto simp: ioShutdown_stream)
qed

lemma run_stream:
  "stdin_run ops w = Inr w' \<Longrightarrow>
   (stdinStream w' \<noteq> None) = foldl stream_after (stdinStream w \<noteq> None) ops"
proof (induction ops arbitrary: w)
  case Nil
  then show ?case by simp
next
  case (Cons x xs)
  then obtain w1 where s: "stdin_step x w = Inr w1" and r: "stdin_run xs w1 = Inr w'"
    by (auto split: sum.splits)
  from Cons.IH [OF r] step_stream [OF s] show ?case
    by simp
qed

text \<open>In every state reached from program start, a stream that libuv is reading on is
  the stream the global points to: the steps of \<open>stdin_run\<close> admit every delivery libuv
  can make.\<close>

lemma step_reading:
  assumes "stdin_step x w = Inr w'"
    and "stdinStream w = None \<longrightarrow> \<not> reactor_reading (trace w)"
  shows "stdinStream w' = None \<longrightarrow> \<not> reactor_reading (trace w')"
proof (cases x)
  case (ReadStart t)
  with assms(1) show ?thesis
    by (auto simp: stdinReadStart_def Let_def io_defs split: if_splits option.splits)
next
  case ReadStop
  with assms(1) show ?thesis
    by (auto simp: stdinReadStop_def io_defs split: option.splits)
next
  case (Deliver n b)
  show ?thesis
  proof (cases "n = UV_EOF")
    case True
    with assms(1) Deliver obtain s where s: "stdinStream w = Some s"
      by (auto split: if_splits)
    from True assms(1) Deliver s eof_delivery [of b w] show ?thesis
      by (auto simp: reactor_reading_def)
  next
    case False
    with assms(1) Deliver show ?thesis
      by (auto simp: stdinReadCallback_def Let_def io_defs
          split: if_splits option.splits uv_buf_t.splits)
  qed
next
  case Shutdown
  with assms show ?thesis
    by (cases "stdinStream w")
       (auto simp: ioShutdown_def shutdownStdin_def Let_def io_defs reactor_reading_def
          split: option.splits)
qed

lemma reading_implies_stream:
  assumes "stdin_run ops world0 = Inr w" and "reactor_reading (trace w)"
  shows "stdinStream w \<noteq> None"
proof -
  have "stdinStream w' = None \<longrightarrow> \<not> reactor_reading (trace w')"
    if "stdin_run ops w0 = Inr w'" "stdinStream w0 = None \<longrightarrow> \<not> reactor_reading (trace w0)"
    for w0 w'
    using that
  proof (induction ops arbitrary: w0)
    case Nil
    then show ?case by simp
  next
    case (Cons x xs)
    then obtain w1 where s: "stdin_step x w0 = Inr w1" and r: "stdin_run xs w1 = Inr w'"
      by (auto split: sum.splits)
    from Cons.IH [OF r step_reading [OF s Cons.prems(2)]] show ?case .
  qed
  from this [OF assms(1)] assms(2) show ?thesis
    by (auto simp: world0_def reactor_reading_def)
qed

text \<open>What the entry points hand to the reactor: read and write requests carry the
  buffer their callbacks expect, and the fiber is the one the caller left in its slot.\<close>

lemma fileReadBytes_request:
  assumes "fileReadBytes w = Inr w'"
  shows "\<exists>fd offset n. new_events w w' =
           [Malloc RequestMem, Malloc RequestDataMem, Malloc BufferMem,
            UvFs (Read fd offset) \<lparr> fiber = slots w 3, buffer = Buffer (replicate (unat n) 0) n \<rparr>
              FileReadBytesCallback]"
  using assms
  by (auto simp: fileReadBytes_def load_fd_def io_defs new_events_def Let_def
      split: option.splits wvalue.splits foreign.splits)

lemma fileWriteBytes_request:
  assumes "fileWriteBytes w = Inr w'"
  shows "\<exists>fd offset bytes n. new_events w w' =
           [Malloc RequestMem, Malloc RequestDataMem, Malloc BufferMem,
            UvFs (Write fd offset) \<lparr> fiber = slots w 3, buffer = Buffer bytes n \<rparr>
              FileWriteBytesCallback]"
  using assms
  by (auto simp: fileWriteBytes_def load_fd_def io_defs new_events_def Let_def
      split: option.splits wvalue.splits foreign.splits)

lemma directoryList_request:
  assumes "directoryList w = Inr w'"
  shows "\<exists>path. slots w 1 = WString path \<and> new_events w w' =
           [Malloc RequestMem, Malloc RequestDataMem,
            UvFs (Scandir path 0) \<lparr> fiber = slots w 2, buffer = NoBuffer \<rparr>
              DirectoryListCallback]"
  using assms
  by (auto simp: directoryList_def io_defs new_events_def Let_def
      split: option.splits wvalue.splits)

section \<open>Properties\<close>

text \<open>
  C4. The error translator \<^verbatim>\<open>handleRequestError\<close> answers false and leaves the state as
  it is when the request's result is not negative. When the result is negative it resumes
  the waiting fiber on the error path with the message \<^verbatim>\<open>uv_strerror\<close> gives for the
  status, then frees the request data and the request, and answers true. Every completion
  callback calls it first and returns at once when it answers true: the whole effect of
  the callback is then the effect of the translator.
\<close>

theorem handleRequestError_contract:
  "(0 \<le> sint (result request) \<longrightarrow> handleRequestError request w = (False, w)) \<and>
   (sint (result request) < 0 \<longrightarrow>
      handleRequestError request w =
        (True, w\<lparr> trace := trace w @
           [SchedulerResumeError (fiber (data request)) (uv_strerror (ucast (result request))),
            Free RequestDataMem, UvFsReqCleanup, Free RequestMem] \<rparr>) \<and>
      (\<forall>cb. complete cb request w = Inr (snd (handleRequestError request w))))"
proof (intro conjI impI allI)
  assume "0 \<le> sint (result request)"
  then show "handleRequestError request w = (False, w)"
    by (simp add: handleRequestError_def)
next
  assume neg: "sint (result request) < 0"
  then show "handleRequestError request w =
        (True, w\<lparr> trace := trace w @
           [SchedulerResumeError (fiber (data request)) (uv_strerror (ucast (result request))),
            Free RequestDataMem, UvFsReqCleanup, Free RequestMem] \<rparr>)"
    by (simp add: handleRequestError_def Let_def schedulerResumeError_def emit_def)
next
  fix cb
  assume neg: "sint (result request) < 0"
  then obtain w0 where h: "handleRequestError request w = (True, w0)"
    by (simp add: handleRequestError_def Let_def)
  show "complete cb request w = Inr (snd (handleRequestError request w))"
    by (cases cb) (simp_all add: callback_defs h)
qed

theorem handleRequestError_contract_witness:
  "sint (result req_enoent) < 0 \<and>
   handleRequestError req_enoent world0 =
     (True, world0\<lparr> trace := trace world0 @
        [SchedulerResumeError (fiber (data req_enoent)) (uv_strerror (ucast (result req_enoent))),
         Free RequestDataMem, UvFsReqCleanup, Free RequestMem] \<rparr>) \<and>
   complete FileOpenCallback req_enoent world0 = Inr (snd (handleRequestError req_enoent world0)) \<and>
   0 \<le> sint (result (req_enoent\<lparr> result := 3 \<rparr>)) \<and>
   handleRequestError (req_enoent\<lparr> result := 3 \<rparr>) world0 = (False, world0)"
proof -
  have neg: "sint (result req_enoent) < 0"
    by (simp add: req_enoent_def)
  have pos: "0 \<le> sint (result (req_enoent\<lparr> result := 3 \<rparr>))"
    by simp
  show ?thesis
    using neg pos handleRequestError_contract [of req_enoent world0]
      handleRequestError_contract [of "req_enoent\<lparr> result := 3 \<rparr>" world0]
    by blast
qed

text \<open>
  C1. Every completion resumes the waiting fiber exactly once. For each of the nine
  completion callbacks and each request the reactor can hand to it, the callback returns,
  and among the calls it made exactly one triggers a resumption: \<^verbatim>\<open>schedulerResumeError\<close>
  for the request's fiber when the result is negative, \<^verbatim>\<open>schedulerResume\<close> for the
  request's fiber otherwise; never both and never neither.
\<close>

theorem resumed_exactly_once:
  assumes "reactor_contract cb request"
  shows "(\<exists>w'. complete cb request w = Inr w') \<and>
         filter is_resumption (completion_events cb request w) =
           (if sint (result request) < 0
            then [SchedulerResumeError (fiber (data request))
                    (uv_strerror (ucast (result request)))]
            else [SchedulerResume (fiber (data request)) (has_value cb)])"
proof (cases "sint (result request) < 0")
  case True
  then show ?thesis
    using complete_failure [OF True, of cb w]
    by (auto simp: completion_failure record_frees_def)
next
  case False
  then have ok: "0 \<le> sint (result request)" by simp
  have "filter is_resumption (success_events cb request w) =
          [SchedulerResume (fiber (data request)) (has_value cb)]"
    by (cases cb) (simp_all add: record_frees_def split: req_ptr.splits option.splits)
  then show ?thesis
    using False complete_success [OF ok assms, of w]
    by (auto simp: completion_success [OF ok assms])
qed

theorem resumed_exactly_once_witness:
  "reactor_contract FileOpenCallback req_ok \<and>
   (\<exists>w'. complete FileOpenCallback req_ok world0 = Inr w') \<and>
   filter is_resumption (completion_events FileOpenCallback req_ok world0) =
     [SchedulerResume (WFiber 7) True] \<and>
   reactor_contract FileDeleteCallback req_enoent \<and>
   filter is_resumption (completion_events FileDeleteCallback req_enoent world0) =
     [SchedulerResumeError (WFiber 7) (UvStrerror (- 2))]"
  using resumed_exactly_once [of FileOpenCallback req_ok world0]
    resumed_exactly_once [of FileDeleteCallback req_enoent world0]
  by (simp add: req_ok_def req_enoent_def uv_strerror_def)

text \<open>
  C2, as stated, fails twice. On the error path \<^verbatim>\<open>handleRequestError\<close> calls
  \<^verbatim>\<open>schedulerResumeError\<close> first and frees the request record afterwards; and
  \<^verbatim>\<open>fileWriteBytesCallback\<close> frees the owned buffer before it resumes the fiber.
\<close>

theorem record_freed_after_error_resumption:
  "\<not> record_freed_before_resumption (completion_events FileDeleteCallback req_enoent world0) \<and>
   reactor_contract FileWriteBytesCallback req_write \<and>
   \<not> buffer_freed_after_handoff (completion_events FileWriteBytesCallback req_write world0)"
proof -
  have neg: "sint (result req_enoent) < 0"
    by (simp add: req_enoent_def)
  have ok: "0 \<le> sint (result req_write)"
    by (simp add: req_write_def req_enoent_def)
  have rc: "reactor_contract FileWriteBytesCallback req_write"
    by (simp add: req_write_def req_enoent_def)
  show ?thesis
    using rc
    by (simp add: completion_failure [OF neg] completion_success [OF ok rc]
        record_freed_before_resumption_def buffer_freed_after_handoff_def record_frees_def)
qed

text \<open>
  C2, amended. Every completion callback returns. With nothing but the resumption calls
  and the three calls that free the request record left in its trace, a successful
  completion reads: the three frees, then \<^verbatim>\<open>schedulerResume\<close> for the request's fiber;
  a failed completion reads: \<^verbatim>\<open>schedulerResumeError\<close> for the request's fiber with the
  translated message, then the three frees. With nothing but the resumption calls, the
  finish call and the release of the owned buffer left in it, a successful read reads:
  \<^verbatim>\<open>schedulerResume\<close>, \<^verbatim>\<open>schedulerFinishResume\<close> with the bytes, then the release; a
  successful write reads: the release, then \<^verbatim>\<open>schedulerResume\<close>; and no other callback
  releases a buffer on success.
\<close>

theorem free_order:
  assumes "reactor_contract cb request"
  shows "(\<exists>w'. complete cb request w = Inr w') \<and>
         (if sint (result request) < 0
          then record_order (completion_events cb request w) =
                 SchedulerResumeError (fiber (data request))
                   (uv_strerror (ucast (result request))) # record_frees
          else record_order (completion_events cb request w) =
                 record_frees @ [SchedulerResume (fiber (data request)) (has_value cb)] \<and>
               (if cb = FileReadBytesCallback
                then buffer_order (completion_events cb request w) =
                       [SchedulerResume (fiber (data request)) True,
                        SchedulerFinishResume
                          (WBytes (take (unat (result request)) (base (buffer (data request))))),
                        Free BufferMem]
                else if cb = FileWriteBytesCallback
                then buffer_order (completion_events cb request w) =
                       [Free BufferMem, SchedulerResume (fiber (data request)) False]
                else Free BufferMem \<notin> set (completion_events cb request w)))"
proof (cases "sint (result request) < 0")
  case True
  then show ?thesis
    using complete_failure [OF True, of cb w]
    by (auto simp: completion_failure record_order_def record_frees_def)
next
  case False
  then have ok: "0 \<le> sint (result request)" by simp
  have "record_order (success_events cb request w) =
          record_frees @ [SchedulerResume (fiber (data request)) (has_value cb)]"
    by (cases cb)
       (simp_all add: record_order_def record_frees_def split: req_ptr.splits option.splits)
  moreover have "buffer_order (success_events FileReadBytesCallback request w) =
                       [SchedulerResume (fiber (data request)) True,
                        SchedulerFinishResume
                          (WBytes (take (unat (result request)) (base (buffer (data request))))),
                        Free BufferMem]"
    by (simp add: buffer_order_def record_frees_def)
  moreover have "buffer_order (success_events FileWriteBytesCallback request w) =
                       [Free BufferMem, SchedulerResume (fiber (data request)) False]"
    by (simp add: buffer_order_def record_frees_def)
  moreover have "cb \<noteq> FileReadBytesCallback \<Longrightarrow> cb \<noteq> FileWriteBytesCallback \<Longrightarrow>
      Free BufferMem \<notin> set (success_events cb request w)"
    by (cases cb)
       (auto simp: record_frees_def entry_events_def split: req_ptr.splits option.splits)
  ultimately show ?thesis
    using False complete_success [OF ok assms, of w]
    unfolding completion_success [OF ok assms, of w]
    by auto
qed

theorem free_order_witness:
  "reactor_contract FileReadBytesCallback req_read \<and>
   record_order (completion_events FileReadBytesCallback req_read world0) =
     [Free RequestDataMem, UvFsReqCleanup, Free RequestMem, SchedulerResume (WFiber 7) True] \<and>
   buffer_order (completion_events FileReadBytesCallback req_read world0) =
     [SchedulerResume (WFiber 7) True, SchedulerFinishResume (WBytes [104, 105]),
      Free BufferMem] \<and>
   reactor_contract FileWriteBytesCallback req_write \<and>
   buffer_order (completion_events FileWriteBytesCallback req_write world0) =
     [Free BufferMem, SchedulerResume (WFiber 7) False] \<and>
   reactor_contract FileDeleteCallback req_enoent \<and>
   record_order (completion_events FileDeleteCallback req_enoent world0) =
     [SchedulerResumeError (WFiber 7) (UvStrerror (- 2)),
      Free RequestDataMem, UvFsReqCleanup, Free RequestMem]"
  using free_order [of FileReadBytesCallback req_read world0]
    free_order [of FileWriteBytesCallback req_write world0]
    free_order [of FileDeleteCallback req_enoent world0]
  by (simp add: req_read_def req_write_def req_enoent_def record_frees_def uv_strerror_def)

text \<open>
  C3, as stated, fails for realpath (and likewise for stat and the directory listing):
  \<^verbatim>\<open>realPathCallback\<close> writes the resolved path into slot 2 before it calls
  \<^verbatim>\<open>schedulerResume\<close>, not between \<^verbatim>\<open>schedulerResume\<close> and \<^verbatim>\<open>schedulerFinishResume\<close>.
\<close>

theorem realpath_writes_before_resume:
  "reactor_contract RealPathCallback req_realpath \<and>
   phases (completion_events RealPathCallback req_realpath world0) =
     [PWriteResult, PResume True, PFinish] \<and>
   phases (completion_events RealPathCallback req_realpath world0) \<noteq>
     [PResume True, PWriteResult, PFinish]"
proof -
  have ok: "0 \<le> sint (result req_realpath)"
    by (simp add: req_realpath_def req_enoent_def)
  have rc: "reactor_contract RealPathCallback req_realpath"
    by (simp add: req_realpath_def req_enoent_def)
  have "phases (success_events RealPathCallback req_realpath world0) =
          [PWriteResult, PResume True, PFinish]"
    by (simp add: phases_def record_frees_def req_realpath_def)
  then show ?thesis
    using rc by (simp add: completion_success [OF ok rc])
qed

text \<open>
  C3, amended. On success every completion callback returns, and the calls it makes are
  exactly the ones \<open>success_events\<close> lists for it, in that order.
  The callbacks of open, size and read free the request, call \<^verbatim>\<open>schedulerResume\<close> for
  the request's fiber with argument, then write the result (the descriptor, the size,
  the bytes read) into slot 2, then call \<^verbatim>\<open>schedulerFinishResume\<close>.
  The callbacks of realpath, stat and the directory listing call
  \<^verbatim>\<open>wrenEnsureSlots(vm, 3)\<close> and write the result (the path, the Stat object, the list
  of names) into slot 2 first; then they free the request, call \<^verbatim>\<open>schedulerResume\<close>
  with argument and, as the very next call, \<^verbatim>\<open>schedulerFinishResume\<close>.
  The callbacks of delete, close and write call \<^verbatim>\<open>schedulerResume\<close> without argument
  as their last call and never call \<^verbatim>\<open>schedulerFinishResume\<close>.
\<close>

theorem resumption_phases:
  assumes "reactor_contract cb request" and "0 \<le> sint (result request)"
  shows "(\<exists>w'. complete cb request w = Inr w') \<and>
         completion_events cb request w = success_events cb request w \<and>
         phases (completion_events cb request w) = expected_phases cb request"
proof -
  have "phases (success_events cb request w) = expected_phases cb request"
    using assms
    by (cases cb)
       (simp_all add: phases_def record_frees_def split: req_ptr.splits option.splits)
  then show ?thesis
    using complete_success [OF assms(2,1), of w]
    by (auto simp: completion_success [OF assms(2,1)])
qed

theorem resumption_phases_witness:
  "reactor_contract FileOpenCallback req_ok \<and> 0 \<le> sint (result req_ok) \<and>
   completion_events FileOpenCallback req_ok world0 =
     [Free RequestDataMem, UvFsReqCleanup, Free RequestMem,
      SchedulerResume (WFiber 7) True, WrenSetSlot 2 (WNum 3), SchedulerFinishResume (WNum 3)] \<and>
   phases (completion_events FileOpenCallback req_ok world0) =
     [PResume True, PWriteResult, PFinish] \<and>
   reactor_contract RealPathCallback req_realpath \<and> 0 \<le> sint (result req_realpath) \<and>
   completion_events RealPathCallback req_realpath world0 =
     [WrenEnsureSlots 3, WrenSetSlot 2 (WString ''/tmp/a''),
      Free RequestDataMem, UvFsReqCleanup, Free RequestMem,
      SchedulerResume (WFiber 7) True, SchedulerFinishResume (WString ''/tmp/a'')] \<and>
   reactor_contract StatCallback req_ok \<and>
   completion_events StatCallback req_ok world0 =
     [WrenEnsureSlots 3, WrenGetVariable ''io'' ''Stat'' 0,
      WrenSetSlot 2 (WClass ''io'' ''Stat''), WrenSetSlot 2 (WForeign 0),
      StoreForeign 0 (StatData (statbuf req_ok)),
      Free RequestDataMem, UvFsReqCleanup, Free RequestMem,
      SchedulerResume (WFiber 7) True, SchedulerFinishResume (WForeign 0)] \<and>
   reactor_contract FileCloseCallback req_ok \<and>
   completion_events FileCloseCallback req_ok world0 =
     [Free RequestDataMem, UvFsReqCleanup, Free RequestMem, SchedulerResume (WFiber 7) False] \<and>
   reactor_contract DirectoryListCallback req_scan \<and> 0 \<le> sint (result req_scan) \<and>
   phases (completion_events DirectoryListCallback req_scan world0) =
     [PWriteResult, PWriteResult, PWriteResult, PResume True, PFinish]"
proof -
  have rc: "reactor_contract FileOpenCallback req_ok" "reactor_contract StatCallback req_ok"
    "reactor_contract FileCloseCallback req_ok" "reactor_contract RealPathCallback req_realpath"
    "reactor_contract DirectoryListCallback req_scan"
    by (simp_all add: req_realpath_def req_enoent_def)
  have ok: "0 \<le> sint (result req_ok)" "0 \<le> sint (result req_realpath)"
    "0 \<le> sint (result req_scan)"
    by (simp_all add: req_ok_def req_realpath_def req_scan_def req_enoent_def)
  have s1: "success_events FileOpenCallback req_ok world0 =
     [Free RequestDataMem, UvFsReqCleanup, Free RequestMem,
      SchedulerResume (WFiber 7) True, WrenSetSlot 2 (WNum 3), SchedulerFinishResume (WNum 3)]"
    by (simp add: req_ok_def req_enoent_def record_frees_def double_of_int_exact)
  have s2: "success_events RealPathCallback req_realpath world0 =
     [WrenEnsureSlots 3, WrenSetSlot 2 (WString ''/tmp/a''),
      Free RequestDataMem, UvFsReqCleanup, Free RequestMem,
      SchedulerResume (WFiber 7) True, SchedulerFinishResume (WString ''/tmp/a'')]"
    by (simp add: req_realpath_def req_enoent_def record_frees_def)
  have s3: "success_events StatCallback req_ok world0 =
     [WrenEnsureSlots 3, WrenGetVariable ''io'' ''Stat'' 0,
      WrenSetSlot 2 (WClass ''io'' ''Stat''), WrenSetSlot 2 (WForeign 0),
      StoreForeign 0 (StatData (statbuf req_ok)),
      Free RequestDataMem, UvFsReqCleanup, Free RequestMem,
      SchedulerResume (WFiber 7) True, SchedulerFinishResume (WForeign 0)]"
    by (simp add: req_ok_def req_enoent_def record_frees_def world0_def)
  have s4: "success_events FileCloseCallback req_ok world0 =
     [Free RequestDataMem, UvFsReqCleanup, Free RequestMem, SchedulerResume (WFiber 7) False]"
    by (simp add: req_ok_def req_enoent_def record_frees_def)
  have s5: "replicate (Suc (length (entries req_scan))) PWriteResult @ [PResume True, PFinish] =
     [PWriteResult, PWriteResult, PWriteResult, PResume True, PFinish]"
    by (simp add: req_scan_def req_enoent_def entries_def)
  show ?thesis
    using resumption_phases [OF rc(1) ok(1), of world0]
      resumption_phases [OF rc(4) ok(2), of world0]
      resumption_phases [OF rc(2) ok(1), of world0]
      resumption_phases [OF rc(3) ok(1), of world0]
      resumption_phases [OF rc(5) ok(3), of world0]
      rc ok
    unfolding s1 s2 s3 s4 s5 expected_phases.simps
    by blast
qed

text \<open>
  C6. When a read completes with a result \<open>n\<close> that is not negative (and, as libuv
  promises, not larger than the buffer), \<^verbatim>\<open>fileReadBytesCallback\<close> returns and resumes
  the fiber on the value path with a byte sequence that consists of the first \<open>n\<close> bytes
  of the buffer, the bytes actually read, and has length \<open>n\<close>. This holds for every such
  \<open>n\<close>, also one smaller than the buffer and also zero: a short or empty read is never
  turned into an error.
\<close>

theorem read_delivers_bytes_read:
  assumes "buffer (data request) = Buffer b l"
    and "0 \<le> sint (result request)"
    and "unat (result request) \<le> length b"
  shows "(\<exists>w'. fileReadBytesCallback request w = Inr w') \<and>
         completion_events FileReadBytesCallback request w =
           record_frees @
           [SchedulerResume (fiber (data request)) True,
            WrenSetSlot 2 (WBytes (take (unat (result request)) b)),
            SchedulerFinishResume (WBytes (take (unat (result request)) b)),
            Free BufferMem] \<and>
         length (take (unat (result request)) b) = unat (result request)"
proof -
  have rc: "reactor_contract FileReadBytesCallback request"
    using assms by simp
  show ?thesis
    using complete_success [OF assms(2) rc, of w] assms(1,3)
    by (auto simp: completion_success [OF assms(2) rc])
qed

theorem read_delivers_bytes_read_witness:
  "buffer (data req_read) = Buffer [104, 105, 0, 0] 4 \<and>
   0 \<le> sint (result req_read) \<and> unat (result req_read) \<le> length [104, 105, 0, 0 :: byte] \<and>
   completion_events FileReadBytesCallback req_read world0 =
     [Free RequestDataMem, UvFsReqCleanup, Free RequestMem,
      SchedulerResume (WFiber 7) True,
      WrenSetSlot 2 (WBytes [104, 105]),
      SchedulerFinishResume (WBytes [104, 105]),
      Free BufferMem] \<and>
   completion_events FileReadBytesCallback (req_read\<lparr> result := 0 \<rparr>) world0 =
     [Free RequestDataMem, UvFsReqCleanup, Free RequestMem,
      SchedulerResume (WFiber 7) True,
      WrenSetSlot 2 (WBytes []),
      SchedulerFinishResume (WBytes []),
      Free BufferMem]"
  using read_delivers_bytes_read [of req_read "[104, 105, 0, 0]" 4 world0]
    read_delivers_bytes_read [of "req_read\<lparr> result := 0 \<rparr>" "[104, 105, 0, 0]" 4 world0]
  by (simp add: req_read_def req_enoent_def record_frees_def)

text \<open>
  C8. When a directory scan succeeded, \<^verbatim>\<open>directoryListCallback\<close> creates a new list in
  slot 2, then, for each entry the cursor hands out and in the cursor's order, puts the
  entry's name into slot 1 and appends it to the list, until the cursor is exhausted;
  then it frees the request and resumes the fiber on the value path with the list of
  exactly these names. With no entries the fiber is resumed with the empty list.
\<close>

theorem directory_list_delivers_names:
  assumes "0 \<le> sint (result request)"
  shows "completion_events DirectoryListCallback request w =
           [WrenEnsureSlots 3, WrenSetSlot 2 (WList [])] @
           concat (map entry_events (entries request)) @
           record_frees @
           [SchedulerResume (fiber (data request)) True,
            SchedulerFinishResume (WList (map (\<lambda>e. WString (name e)) (entries request)))] \<and>
         entries (fst (directoryListCallback_loop request w)) = []"
  using completion_success [OF assms, of DirectoryListCallback w]
  by (simp add: loop_exhausts)

theorem directory_list_delivers_names_witness:
  "0 \<le> sint (result req_scan) \<and>
   completion_events DirectoryListCallback req_scan world0 =
     [WrenEnsureSlots 3, WrenSetSlot 2 (WList []),
      WrenSetSlot 1 (WString ''b''), WrenInsertInList 2 (- 1) 1,
      WrenSetSlot 1 (WString ''a''), WrenInsertInList 2 (- 1) 1,
      Free RequestDataMem, UvFsReqCleanup, Free RequestMem,
      SchedulerResume (WFiber 7) True,
      SchedulerFinishResume (WList [WString ''b'', WString ''a''])] \<and>
   0 \<le> sint (result (req_scan\<lparr> ptr := NoPtr, result := 0 \<rparr>)) \<and>
   completion_events DirectoryListCallback (req_scan\<lparr> ptr := NoPtr, result := 0 \<rparr>) world0 =
     [WrenEnsureSlots 3, WrenSetSlot 2 (WList []),
      Free RequestDataMem, UvFsReqCleanup, Free RequestMem,
      SchedulerResume (WFiber 7) True,
      SchedulerFinishResume (WList [])]"
  using directory_list_delivers_names [of req_scan world0]
    directory_list_delivers_names [of "req_scan\<lparr> ptr := NoPtr, result := 0 \<rparr>" world0]
  by (simp add: req_scan_def req_enoent_def record_frees_def entries_def entry_events_def)

text \<open>
  C5. \<^verbatim>\<open>fileClose\<close> on a File whose descriptor is the sentinel \<open>-1\<close> only stores true in
  slot 0 (the method's return value): it allocates no request, calls nothing of libuv and
  leaves the File as it is. On a File with any other descriptor it first stores \<open>-1\<close> in
  the File, then creates a request for the fiber in slot 1, hands the close of the old
  descriptor to libuv with \<^verbatim>\<open>fileCloseCallback\<close>, and stores false in slot 0; when that
  request completes successfully the callback frees it and resumes the fiber without a
  value.
\<close>

theorem close_once:
  assumes "slots w 0 = WForeign p" and "objects w p = Some (FileData fd)"
  shows "\<exists>w'. fileClose w = Inr w' \<and>
           (if fd = - 1
            then new_events w w' = [WrenSetSlot 0 (WBool True)] \<and> objects w' = objects w
            else new_events w w' =
                   [StoreForeign p (FileData (- 1)),
                    Malloc RequestMem, Malloc RequestDataMem,
                    UvFs (Close fd) \<lparr> fiber = slots w 1, buffer = NoBuffer \<rparr> FileCloseCallback,
                    WrenSetSlot 0 (WBool False)] \<and>
                 objects w' = (objects w)(p \<mapsto> FileData (- 1)) \<and>
                 (data request = \<lparr> fiber = slots w 1, buffer = NoBuffer \<rparr> \<and>
                  0 \<le> sint (result request) \<longrightarrow>
                    completion_events FileCloseCallback request w2 =
                      record_frees @ [SchedulerResume (slots w 1) False]))"
  using assms
  by (auto simp: fileClose_def load_fd_def io_defs new_events_def Let_def completion_success)

theorem close_once_witness:
  "slots w_file 0 = WForeign 0 \<and> objects w_file 0 = Some (FileData 5) \<and>
   (\<exists>w'. fileClose w_file = Inr w' \<and>
      new_events w_file w' =
        [StoreForeign 0 (FileData (- 1)), Malloc RequestMem, Malloc RequestDataMem,
         UvFs (Close 5) \<lparr> fiber = WFiber 7, buffer = NoBuffer \<rparr> FileCloseCallback,
         WrenSetSlot 0 (WBool False)] \<and>
      objects w' 0 = Some (FileData (- 1))) \<and>
   data req_ok = \<lparr> fiber = slots w_file 1, buffer = NoBuffer \<rparr> \<and>
   0 \<le> sint (result req_ok) \<and>
   completion_events FileCloseCallback req_ok world0 =
     [Free RequestDataMem, UvFsReqCleanup, Free RequestMem, SchedulerResume (WFiber 7) False] \<and>
   slots w_closed 0 = WForeign 0 \<and> objects w_closed 0 = Some (FileData (- 1)) \<and>
   (\<exists>w'. fileClose w_closed = Inr w' \<and> new_events w_closed w' = [WrenSetSlot 0 (WBool True)])"
proof -
  have a: "slots w_file 0 = WForeign 0" "objects w_file 0 = Some (FileData 5)"
    by (simp_all add: w_file_def world0_def)
  have b: "slots w_closed 0 = WForeign 0" "objects w_closed 0 = Some (FileData (- 1))"
    by (simp_all add: w_closed_def w_file_def world0_def)
  have c: "0 \<le> sint (result req_ok)"
    "data req_ok = \<lparr> fiber = slots w_file 1, buffer = NoBuffer \<rparr>"
    by (simp_all add: req_ok_def req_enoent_def w_file_def world0_def)
  have d: "slots w_file 1 = WFiber 7"
    by (simp add: w_file_def world0_def)
  show ?thesis
    using close_once [OF a, of req_ok world0] close_once [OF b, of req_ok world0] a b c d
    by (auto simp: record_frees_def)
qed

text \<open>
  C7. \<^verbatim>\<open>mapFileFlags\<close> is a function of the portable bit set alone (and of the platform's
  constants): it reads and changes no state. Bit 0 contributes \<^verbatim>\<open>O_RDONLY\<close>, bit 1
  \<^verbatim>\<open>O_WRONLY\<close>, bit 2 \<^verbatim>\<open>O_RDWR\<close>, bit 3 \<^verbatim>\<open>O_SYNC\<close>, bit 4 \<^verbatim>\<open>O_CREAT\<close>, bit 5
  \<^verbatim>\<open>O_TRUNC\<close> and bit 6 \<^verbatim>\<open>O_EXCL\<close>, each independently of the others, and nothing else
  contributes; for read-only together with create the result is
  \<^verbatim>\<open>O_RDONLY | O_CREAT\<close>, nothing more.
\<close>

theorem mapFileFlags_bits:
  "mapFileFlags p flags =
     (if flags AND 0x01 \<noteq> 0 then O_RDONLY p else 0) OR
     (if flags AND 0x02 \<noteq> 0 then O_WRONLY p else 0) OR
     (if flags AND 0x04 \<noteq> 0 then O_RDWR p else 0) OR
     (if flags AND 0x08 \<noteq> 0 then O_SYNC p else 0) OR
     (if flags AND 0x10 \<noteq> 0 then O_CREAT p else 0) OR
     (if flags AND 0x20 \<noteq> 0 then O_TRUNC p else 0) OR
     (if flags AND 0x40 \<noteq> 0 then O_EXCL p else 0) \<and>
   mapFileFlags p (0x01 OR 0x10) = O_RDONLY p OR O_CREAT p \<and>
   mapFileFlags p (flags AND 0x7F) = mapFileFlags p flags"
proof (intro conjI)
  show "mapFileFlags p flags =
     (if flags AND 0x01 \<noteq> 0 then O_RDONLY p else 0) OR
     (if flags AND 0x02 \<noteq> 0 then O_WRONLY p else 0) OR
     (if flags AND 0x04 \<noteq> 0 then O_RDWR p else 0) OR
     (if flags AND 0x08 \<noteq> 0 then O_SYNC p else 0) OR
     (if flags AND 0x10 \<noteq> 0 then O_CREAT p else 0) OR
     (if flags AND 0x20 \<noteq> 0 then O_TRUNC p else 0) OR
     (if flags AND 0x40 \<noteq> 0 then O_EXCL p else 0)"
    by (simp add: mapFileFlags_def Let_def or.assoc)
  show "mapFileFlags p (0x01 OR 0x10) = O_RDONLY p OR O_CREAT p"
    by (simp add: mapFileFlags_def Let_def)
  have "(flags AND 0x7F) AND 0x01 = flags AND 0x01" "(flags AND 0x7F) AND 0x02 = flags AND 0x02"
    "(flags AND 0x7F) AND 0x04 = flags AND 0x04" "(flags AND 0x7F) AND 0x08 = flags AND 0x08"
    "(flags AND 0x7F) AND 0x10 = flags AND 0x10" "(flags AND 0x7F) AND 0x20 = flags AND 0x20"
    "(flags AND 0x7F) AND 0x40 = flags AND 0x40"
    by (simp_all add: and.assoc)
  then show "mapFileFlags p (flags AND 0x7F) = mapFileFlags p flags"
    by (simp add: mapFileFlags_def Let_def)
qed

theorem mapFileFlags_bits_witness:
  "mapFileFlags linux 0x11 = 0x40 \<and> mapFileFlags linux 0x32 = 0x241 \<and>
   mapFileFlags linux 0x91 = mapFileFlags linux 0x11"
  using mapFileFlags_bits [of linux "0x11"] mapFileFlags_bits [of linux "0x32"]
    mapFileFlags_bits [of linux "0x91"]
  by (simp add: linux_def)

text \<open>
  C9, as stated, fails in its last part. The module keeps no record that end-of-stream
  was delivered: \<^verbatim>\<open>shutdownStdin\<close> puts the three globals back to \<^verbatim>\<open>NULL\<close>, the state
  in which \<^verbatim>\<open>stdinReadStart\<close> creates a stream. After a second \<^verbatim>\<open>stdinReadStart\<close> the
  reactor delivers on the new stream, and a second end-of-stream invokes the handler with
  null a second time.
\<close>

theorem second_end_of_stream_after_restart:
  "filter is_handler_call
     (stdin_run_events
        [ReadStart False, Deliver UV_EOF (Buffer [] 0),
         ReadStart False, Deliver UV_EOF (Buffer [] 0)] world0) =
     [WrenCall (WMethod ''onData_(_)'') (WClass ''io'' ''Stdin'') WNull,
      WrenCall (WMethod ''onData_(_)'') (WClass ''io'' ''Stdin'') WNull]"
  by (simp add: stdin_run_events_def stdinReadStart_def stdinReadCallback_def shutdownStdin_def
      world0_def new_events_def Let_def io_defs)

text \<open>
  C9, amended. When \<^verbatim>\<open>stdinReadCallback\<close> receives end-of-stream it resolves the class
  and the method handle if they are not cached, invokes the handler exactly once, with
  null as its argument, and then shuts the subsystem down: it closes and frees the stream
  (if there is one) and releases the class and the method handle, each once, and leaves
  the three globals \<^verbatim>\<open>NULL\<close>.
  When there was a stream, \<^verbatim>\<open>uv_close\<close> is the last call made on it: whatever is
  called next, as long as \<^verbatim>\<open>uv_read_start\<close> is not called, libuv has no stream that
  is reading and invokes \<^verbatim>\<open>stdinReadCallback\<close> no more.
  \<^verbatim>\<open>stdinReadStart\<close>, called next, succeeds: it creates a new stream and calls
  \<^verbatim>\<open>uv_read_start\<close> on it. On that stream libuv delivers again, and the handler is
  invoked again: with null for a second end-of-stream, with the bytes read for data.
\<close>

theorem end_of_stream_shuts_down:
  "\<exists>w'. stdinReadCallback UV_EOF buf w = Inr w' \<and>
     new_events w w' = lazy_init_events w @
       [WrenEnsureSlots 2, WrenSetSlot 0 (resolved_class w), WrenSetSlot 1 WNull,
        WrenCall (resolved_method w) (resolved_class w) WNull] @
       (case stdinStream w of Some s \<Rightarrow> [UvClose s, Free StreamMem] | None \<Rightarrow> []) @
       [WrenReleaseValue (resolved_class w), WrenReleaseValue (resolved_method w)] \<and>
     stdinStream w' = None \<and> stdinClass w' = None \<and> stdinOnData w' = None \<and>
     (stdinStream w \<noteq> None \<longrightarrow>
        (\<forall>evs w''. UvReadStart TtyStream \<notin> set evs \<and> UvReadStart PipeStream \<notin> set evs \<and>
           trace w'' = trace w' @ evs \<longrightarrow>
             \<not> reactor_reading (trace w'') \<and> deliver numRead b w'' = Inl ReactorIdle)) \<and>
     (\<exists>w1. stdinReadStart is_tty w' = Inr w1 \<and>
        new_events w' w1 = Malloc StreamMem #
          (if is_tty then [UvTtyInit, UvReadStart TtyStream]
           else [UvPipeInit, UvPipeOpen, UvReadStart PipeStream]) \<and>
        stdinStream w1 = Some (if is_tty then TtyStream else PipeStream) \<and>
        reactor_reading (trace w1) \<and>
        (\<exists>w2. deliver UV_EOF b w1 = Inr w2 \<and>
           filter is_handler_call (new_events w1 w2) =
             [WrenCall (WMethod ''onData_(_)'') (WClass ''io'' ''Stdin'') WNull]) \<and>
        (numRead \<noteq> UV_EOF \<and> unat numRead \<le> length bs \<longrightarrow>
           (\<exists>w2. deliver numRead (Buffer bs l) w1 = Inr w2 \<and>
              filter is_handler_call (new_events w1 w2) =
                [WrenCall (WMethod ''onData_(_)'') (WClass ''io'' ''Stdin'')
                   (WBytes (take (unat numRead) bs))])))"
proof -
  from eof_delivery [of buf w] obtain w' where
    r: "stdinReadCallback UV_EOF buf w = Inr w'" and
    t: "trace w' = trace w @ lazy_init_events w @
       [WrenEnsureSlots 2, WrenSetSlot 0 (resolved_class w), WrenSetSlot 1 WNull,
        WrenCall (resolved_method w) (resolved_class w) WNull] @
       (case stdinStream w of Some s \<Rightarrow> [UvClose s, Free StreamMem] | None \<Rightarrow> []) @
       [WrenReleaseValue (resolved_class w), WrenReleaseValue (resolved_method w)]" and
    c: "stdinStream w' = None" "stdinClass w' = None" "stdinOnData w' = None"
    by blast
  have quiet: "\<not> reactor_reading (trace w'') \<and> deliver numRead b w'' = Inl ReactorIdle"
    if live: "stdinStream w \<noteq> None"
      and evs: "UvReadStart TtyStream \<notin> set evs" "UvReadStart PipeStream \<notin> set evs"
        "trace w'' = trace w' @ evs"
    for evs w''
  proof -
    from live obtain s where s: "stdinStream w = Some s" by blast
    have "\<not> reactor_reading (trace w')"
      by (simp add: t s reactor_reading_def)
    then have "\<not> reactor_reading (trace w'')"
      using reading_needs_start [OF _ evs(1,2)] by (simp add: evs(3) reactor_reading_append)
    then show ?thesis by (simp add: deliver_def)
  qed
  from restart [OF c(1), of is_tty] obtain w1 where
    r1: "stdinReadStart is_tty w' = Inr w1" and
    t1: "trace w1 = trace w' @ Malloc StreamMem #
       (if is_tty then [UvTtyInit, UvReadStart TtyStream]
        else [UvPipeInit, UvPipeOpen, UvReadStart PipeStream])" and
    c1: "stdinStream w1 = Some (if is_tty then TtyStream else PipeStream)"
      "stdinClass w1 = None" "stdinOnData w1 = None"
    using c by auto
  have rd: "reactor_reading (trace w1)"
    by (simp add: t1 reactor_reading_append)
  have li: "lazy_init_events w1 =
      [WrenEnsureSlots 1, WrenGetVariable ''io'' ''Stdin'' 0, WrenMakeCallHandle ''onData_(_)'']"
    "resolved_class w1 = WClass ''io'' ''Stdin''" "resolved_method w1 = WMethod ''onData_(_)''"
    by (simp_all add: lazy_init_events_def resolved_class_def resolved_method_def c1)
  from eof_delivery [of b w1] obtain w2 where
    "stdinReadCallback UV_EOF b w1 = Inr w2" and
    "trace w2 = trace w1 @ lazy_init_events w1 @
       [WrenEnsureSlots 2, WrenSetSlot 0 (resolved_class w1), WrenSetSlot 1 WNull,
        WrenCall (resolved_method w1) (resolved_class w1) WNull] @
       (case stdinStream w1 of Some s \<Rightarrow> [UvClose s, Free StreamMem] | None \<Rightarrow> []) @
       [WrenReleaseValue (resolved_class w1), WrenReleaseValue (resolved_method w1)]"
    by blast
  then have again: "\<exists>w2. deliver UV_EOF b w1 = Inr w2 \<and>
           filter is_handler_call (new_events w1 w2) =
             [WrenCall (WMethod ''onData_(_)'') (WClass ''io'' ''Stdin'') WNull]"
    using rd by (auto simp: deliver_def new_events_def li c1)
  have data: "\<exists>w2. deliver numRead (Buffer bs l) w1 = Inr w2 \<and>
              filter is_handler_call (new_events w1 w2) =
                [WrenCall (WMethod ''onData_(_)'') (WClass ''io'' ''Stdin'')
                   (WBytes (take (unat numRead) bs))]"
    if "numRead \<noteq> UV_EOF" "unat numRead \<le> length bs"
    using data_delivery [OF that, of l w1] rd
    by (auto simp: deliver_def new_events_def li)
  show ?thesis
    using r c new_events_append [OF t] quiet r1 new_events_append [OF t1] c1(1) rd again data
    by blast
qed

theorem end_of_stream_shuts_down_witness:
  "\<exists>w'. stdinReadCallback UV_EOF (Buffer [] 0) w_reading = Inr w' \<and>
     new_events w_reading w' =
       [WrenEnsureSlots 1, WrenGetVariable ''io'' ''Stdin'' 0,
        WrenMakeCallHandle ''onData_(_)'',
        WrenEnsureSlots 2, WrenSetSlot 0 (WClass ''io'' ''Stdin''), WrenSetSlot 1 WNull,
        WrenCall (WMethod ''onData_(_)'') (WClass ''io'' ''Stdin'') WNull,
        UvClose PipeStream, Free StreamMem,
        WrenReleaseValue (WClass ''io'' ''Stdin''), WrenReleaseValue (WMethod ''onData_(_)'')] \<and>
     \<not> reactor_reading (trace w') \<and>
     deliver 1 (Buffer [104] 1) w' = Inl ReactorIdle \<and>
     (\<exists>w1. stdinReadStart False w' = Inr w1 \<and>
        new_events w' w1 = [Malloc StreamMem, UvPipeInit, UvPipeOpen, UvReadStart PipeStream] \<and>
        reactor_reading (trace w1) \<and>
        (\<exists>w2. deliver UV_EOF (Buffer [] 0) w1 = Inr w2 \<and>
           filter is_handler_call (new_events w1 w2) =
             [WrenCall (WMethod ''onData_(_)'') (WClass ''io'' ''Stdin'') WNull]) \<and>
        (\<exists>w2. deliver 1 (Buffer [104] 1) w1 = Inr w2 \<and>
           filter is_handler_call (new_events w1 w2) =
             [WrenCall (WMethod ''onData_(_)'') (WClass ''io'' ''Stdin'') (WBytes [104])]))"
proof -
  have live: "stdinStream w_reading \<noteq> None"
    by (simp add: w_reading_def)
  have n: "(1 :: ssize_t) \<noteq> UV_EOF \<and> unat (1 :: ssize_t) \<le> length [104 :: byte]"
    by (simp add: UV_EOF_def)
  have e: "lazy_init_events w_reading @
       [WrenEnsureSlots 2, WrenSetSlot 0 (resolved_class w_reading), WrenSetSlot 1 WNull,
        WrenCall (resolved_method w_reading) (resolved_class w_reading) WNull] @
       (case stdinStream w_reading of Some s \<Rightarrow> [UvClose s, Free StreamMem] | None \<Rightarrow> []) @
       [WrenReleaseValue (resolved_class w_reading), WrenReleaseValue (resolved_method w_reading)] =
       [WrenEnsureSlots 1, WrenGetVariable ''io'' ''Stdin'' 0,
        WrenMakeCallHandle ''onData_(_)'',
        WrenEnsureSlots 2, WrenSetSlot 0 (WClass ''io'' ''Stdin''), WrenSetSlot 1 WNull,
        WrenCall (WMethod ''onData_(_)'') (WClass ''io'' ''Stdin'') WNull,
        UvClose PipeStream, Free StreamMem,
        WrenReleaseValue (WClass ''io'' ''Stdin''), WrenReleaseValue (WMethod ''onData_(_)'')]"
    by (simp add: lazy_init_events_def resolved_class_def resolved_method_def w_reading_def
        world0_def)
  have t: "take (unat (1 :: ssize_t)) [104 :: byte] = [104]"
    by simp
  from end_of_stream_shuts_down
    [of "Buffer [] 0" w_reading 1 "Buffer [] 0" False "[104]" 1]
  obtain w' where
    a: "stdinReadCallback UV_EOF (Buffer [] 0) w_reading = Inr w'" and
    b: "new_events w_reading w' = lazy_init_events w_reading @
       [WrenEnsureSlots 2, WrenSetSlot 0 (resolved_class w_reading), WrenSetSlot 1 WNull,
        WrenCall (resolved_method w_reading) (resolved_class w_reading) WNull] @
       (case stdinStream w_reading of Some s \<Rightarrow> [UvClose s, Free StreamMem] | None \<Rightarrow> []) @
       [WrenReleaseValue (resolved_class w_reading), WrenReleaseValue (resolved_method w_reading)]" and
    q: "stdinStream w_reading \<noteq> None \<longrightarrow>
        (\<forall>evs w''. UvReadStart TtyStream \<notin> set evs \<and> UvReadStart PipeStream \<notin> set evs \<and>
           trace w'' = trace w' @ evs \<longrightarrow>
             \<not> reactor_reading (trace w'') \<and> deliver 1 (Buffer [] 0) w'' = Inl ReactorIdle)" and
    s: "\<exists>w1. stdinReadStart False w' = Inr w1 \<and>
        new_events w' w1 = Malloc StreamMem #
          (if False then [UvTtyInit, UvReadStart TtyStream]
           else [UvPipeInit, UvPipeOpen, UvReadStart PipeStream]) \<and>
        stdinStream w1 = Some (if False then TtyStream else PipeStream) \<and>
        reactor_reading (trace w1) \<and>
        (\<exists>w2. deliver UV_EOF (Buffer [] 0) w1 = Inr w2 \<and>
           filter is_handler_call (new_events w1 w2) =
             [WrenCall (WMethod ''onData_(_)'') (WClass ''io'' ''Stdin'') WNull]) \<and>
        ((1 :: ssize_t) \<noteq> UV_EOF \<and> unat (1 :: ssize_t) \<le> length [104 :: byte] \<longrightarrow>
           (\<exists>w2. deliver 1 (Buffer [104] 1) w1 = Inr w2 \<and>
              filter is_handler_call (new_events w1 w2) =
                [WrenCall (WMethod ''onData_(_)'') (WClass ''io'' ''Stdin'')
                   (WBytes (take (unat (1 :: ssize_t)) [104]))]))"
    by blast
  have "UvReadStart TtyStream \<notin> set [] \<and> UvReadStart PipeStream \<notin> set [] \<and>
      trace w' = trace w' @ []"
    by simp
  with q live have quiet: "\<not> reactor_reading (trace w')"
    by blast
  then have idle: "deliver 1 (Buffer [104] 1) w' = Inl ReactorIdle"
    by (simp add: deliver_def)
  from s n obtain w1 where
    "stdinReadStart False w' = Inr w1"
    "new_events w' w1 = [Malloc StreamMem, UvPipeInit, UvPipeOpen, UvReadStart PipeStream]"
    "reactor_reading (trace w1)"
    "\<exists>w2. deliver UV_EOF (Buffer [] 0) w1 = Inr w2 \<and>
           filter is_handler_call (new_events w1 w2) =
             [WrenCall (WMethod ''onData_(_)'') (WClass ''io'' ''Stdin'') WNull]"
    "\<exists>w2. deliver 1 (Buffer [104] 1) w1 = Inr w2 \<and>
           filter is_handler_call (new_events w1 w2) =
             [WrenCall (WMethod ''onData_(_)'') (WClass ''io'' ''Stdin'') (WBytes [104])]"
    unfolding t by auto
  then show ?thesis
    using a b quiet idle unfolding e by blast
qed

text \<open>
  C10. \<^verbatim>\<open>stdinReadStop\<close> dereferences the global stream without a test. In a state
  reached from program start by any sequence of \<^verbatim>\<open>stdinReadStart\<close>, \<^verbatim>\<open>stdinReadStop\<close>,
  deliveries of the reactor and \<^verbatim>\<open>ioShutdown\<close>, it dereferences null exactly when
  \<^verbatim>\<open>stdinReadStart\<close> has not been called since the last shutdown (\<^verbatim>\<open>ioShutdown\<close> or a
  delivered end-of-stream); when it has been called, \<^verbatim>\<open>stdinReadStop\<close> stops the existing
  stream and the null branch is not reached.
\<close>

theorem stop_needs_start:
  assumes "stdin_run ops world0 = Inr w"
  shows "(stdinReadStop w = Inl NullDereference \<longleftrightarrow> \<not> started_since_shutdown ops) \<and>
         (started_since_shutdown ops \<longrightarrow>
            (\<exists>s. stdinStream w = Some s \<and> stdinReadStop w = Inr (emit (UvReadStop s) w)))"
proof -
  have "(stdinStream w \<noteq> None) = started_since_shutdown ops"
    using run_stream [OF assms] by (simp add: started_since_shutdown_def world0_def)
  then show ?thesis
    by (cases "stdinStream w") (auto simp: stdinReadStop_def)
qed

theorem stop_needs_start_witness:
  "stdin_run [ReadStart True, ReadStop] world0 =
     Inr (world0\<lparr> stdinStream := Some TtyStream,
            trace := [Malloc StreamMem, UvTtyInit, UvReadStart TtyStream, UvReadStop TtyStream] \<rparr>) \<and>
   started_since_shutdown [ReadStart True, ReadStop] \<and>
   stdinReadStop (world0\<lparr> stdinStream := Some TtyStream,
       trace := [Malloc StreamMem, UvTtyInit, UvReadStart TtyStream, UvReadStop TtyStream] \<rparr>) \<noteq>
     Inl NullDereference \<and>
   stdin_run [] world0 = Inr world0 \<and> \<not> started_since_shutdown [] \<and>
   stdinReadStop world0 = Inl NullDereference"
proof -
  have a: "stdin_run [ReadStart True, ReadStop] world0 =
     Inr (world0\<lparr> stdinStream := Some TtyStream,
            trace := [Malloc StreamMem, UvTtyInit, UvReadStart TtyStream, UvReadStop TtyStream] \<rparr>)"
    by (simp add: stdinReadStart_def stdinReadStop_def world0_def Let_def io_defs)
  have b: "stdin_run [] world0 = Inr world0"
    by simp
  have c: "started_since_shutdown [ReadStart True, ReadStop]" "\<not> started_since_shutdown []"
    by (simp_all add: started_since_shutdown_def)
  show ?thesis
    using stop_needs_start [OF a] stop_needs_start [OF b] a b c
    by simp
qed

end
